theory Spec2Isabelle
  imports Complex_Main "HOL-Library.Sublist"
begin

section \<open>Strings: the Python string operations the scripts use\<close>

text \<open>
  Both scripts (\<^verbatim>\<open>alma.py\<close>, the interactive one, and \<^verbatim>\<open>alma_w-hydrae.py\<close>, with the
  target and the radius fixed) test file names with \<^verbatim>\<open>str.lower\<close> and \<^verbatim>\<open>str.endswith\<close>.
  A string is a list of characters. \<^verbatim>\<open>lower\<close> is modelled on ASCII, the alphabet of URLs:
  the letters \<^verbatim>\<open>A\<close> to \<^verbatim>\<open>Z\<close> move to \<^verbatim>\<open>a\<close> to \<^verbatim>\<open>z\<close>, every other character stays.
\<close>

definition lower_char :: "char \<Rightarrow> char" where
  "lower_char c =
     (case map_of (zip ''ABCDEFGHIJKLMNOPQRSTUVWXYZ'' ''abcdefghijklmnopqrstuvwxyz'') c of
        Some d \<Rightarrow> d
      | None \<Rightarrow> c)"

definition lower :: "string \<Rightarrow> string" where
  "lower s = map lower_char s"

text \<open>\<^verbatim>\<open>s.endswith(suf)\<close>: the last \<open>length suf\<close> characters of \<open>s\<close> are \<open>suf\<close>.\<close>

definition endswith :: "string \<Rightarrow> string \<Rightarrow> bool" where
  "endswith s suf = (length suf \<le> length s \<and> drop (length s - length suf) s = suf)"

definition is_fits_url :: "string \<Rightarrow> bool" where
  "is_fits_url url = endswith (lower url) ''.fits''"

definition is_targz_url :: "string \<Rightarrow> bool" where
  "is_targz_url url = endswith (lower url) ''.tar.gz''"


text \<open>
  \<^verbatim>\<open>str.strip()\<close> removes the leading and the trailing white space: the characters for
  which \<^verbatim>\<open>str.isspace()\<close> holds. A string being the bytes of its UTF-8 encoding, each of
  them is a sequence of one to three bytes: the ten of ASCII, U+0085, U+00A0, U+1680,
  U+2000 to U+200A, U+2028, U+2029, U+202F, U+205F and U+3000.
\<close>

definition white_space :: "string list" where
  "white_space =
     [[CHR 0x09], [CHR 0x0A], [CHR 0x0B], [CHR 0x0C], [CHR 0x0D],
      [CHR 0x1C], [CHR 0x1D], [CHR 0x1E], [CHR 0x1F], [CHR 0x20],
      [CHR 0xC2, CHR 0x85], [CHR 0xC2, CHR 0xA0], [CHR 0xE1, CHR 0x9A, CHR 0x80],
      [CHR 0xE2, CHR 0x80, CHR 0x80], [CHR 0xE2, CHR 0x80, CHR 0x81],
      [CHR 0xE2, CHR 0x80, CHR 0x82], [CHR 0xE2, CHR 0x80, CHR 0x83],
      [CHR 0xE2, CHR 0x80, CHR 0x84], [CHR 0xE2, CHR 0x80, CHR 0x85],
      [CHR 0xE2, CHR 0x80, CHR 0x86], [CHR 0xE2, CHR 0x80, CHR 0x87],
      [CHR 0xE2, CHR 0x80, CHR 0x88], [CHR 0xE2, CHR 0x80, CHR 0x89],
      [CHR 0xE2, CHR 0x80, CHR 0x8A], [CHR 0xE2, CHR 0x80, CHR 0xA8],
      [CHR 0xE2, CHR 0x80, CHR 0xA9], [CHR 0xE2, CHR 0x80, CHR 0xAF],
      [CHR 0xE2, CHR 0x81, CHR 0x9F], [CHR 0xE3, CHR 0x80, CHR 0x80]]"

text \<open>Removing, from the front of \<open>s\<close>, every sequence of \<open>ws\<close> found there.\<close>

function strip_left :: "string list \<Rightarrow> string \<Rightarrow> string" where
  "strip_left ws s =
     (case find (\<lambda>w. w \<noteq> [] \<and> prefix w s) ws of
        None \<Rightarrow> s
      | Some w \<Rightarrow> strip_left ws (drop (length w) s))"
  by pat_completeness auto
termination
  by (relation "measure (\<lambda>(ws, s). length s)") (auto simp: find_Some_iff prefix_def)

declare strip_left.simps [simp del]

definition strip :: "string \<Rightarrow> string" where
  "strip s = rev (strip_left (map rev white_space) (rev (strip_left white_space s)))"

text \<open>
  \<^verbatim>\<open>os.path.basename\<close> and the two-argument \<^verbatim>\<open>os.path.join\<close> of \<^verbatim>\<open>posixpath\<close>:
  the part after the last slash; \<^verbatim>\<open>b\<close> alone when it is absolute, else \<^verbatim>\<open>a\<close> and \<^verbatim>\<open>b\<close>
  separated by one slash.
\<close>

definition basename :: "string \<Rightarrow> string" where
  "basename p = rev (takeWhile (\<lambda>c. c \<noteq> CHR ''/'') (rev p))"

definition path_join :: "string \<Rightarrow> string \<Rightarrow> string" where
  "path_join a b =
     (if take 1 b = ''/'' then b
      else if a = [] \<or> endswith a ''/'' then a @ b
      else a @ ''/'' @ b)"

section \<open>Floating-point values\<close>

text \<open>
  The scripts do no arithmetic on floats: they parse one, compare and take a maximum.
  A float is therefore a real number, an infinity or NaN, and the comparisons are the
  IEEE ones: every comparison with NaN is false.
\<close>

datatype pyfloat = Finite real | PInf | NInf | NaN

fun float_less :: "pyfloat \<Rightarrow> pyfloat \<Rightarrow> bool" where
  "float_less NaN _ = False"
| "float_less _ NaN = False"
| "float_less (Finite x) (Finite y) = (x < y)"
| "float_less _ NInf = False"
| "float_less NInf _ = True"
| "float_less PInf _ = False"
| "float_less _ PInf = True"

fun float_le :: "pyfloat \<Rightarrow> pyfloat \<Rightarrow> bool" where
  "float_le NaN _ = False"
| "float_le _ NaN = False"
| "float_le (Finite x) (Finite y) = (x \<le> y)"
| "float_le NInf _ = True"
| "float_le _ PInf = True"
| "float_le _ NInf = False"
| "float_le PInf _ = False"

text \<open>\<^verbatim>\<open>max(a, b)\<close> of Python keeps \<open>a\<close> unless \<open>b > a\<close>.\<close>

definition py_max :: "pyfloat \<Rightarrow> pyfloat \<Rightarrow> pyfloat" where
  "py_max a b = (if float_less a b then b else a)"

text \<open>The literal \<^verbatim>\<open>1e-10\<close>: the double nearest to it, \<open>7737125245533627 / 2^86\<close>.\<close>

definition lit_1e_10 :: pyfloat where
  "lit_1e_10 = Finite (7737125245533627 / 2 ^ 86)"

section \<open>Errors, tables and list indexing\<close>

datatype error =
    EOFError                                \<comment> \<open>\<^verbatim>\<open>input()\<close> at the end of the standard input\<close>
  | RuntimeError string                     \<comment> \<open>\<^verbatim>\<open>raise RuntimeError(msg)\<close>\<close>
  | RuntimeError_no_datasets string pyfloat
      \<comment> \<open>\<^verbatim>\<open>RuntimeError(f"No ALMA datasets found for {target_name} within {radius} deg.")\<close>\<close>
  | NameResolveError string                 \<comment> \<open>\<^verbatim>\<open>SkyCoord.from_name\<close> finds no such name\<close>
  | IndexError
  | TypeError
  | TarError string                         \<comment> \<open>\<^verbatim>\<open>tarfile\<close> cannot read the archive\<close>
  | FitsOpenError "string option"           \<comment> \<open>\<^verbatim>\<open>fits.open\<close> cannot open its argument\<close>
  | LibraryError string
      \<comment> \<open>the exception of the \<^verbatim>\<open>numpy\<close> or \<^verbatim>\<open>matplotlib\<close> call named, which raises\<close>

text \<open>
  The query result and the file listing are tables of the archive client. A column that
  the scripts read only when \<^verbatim>\<open>"name" in table.colnames\<close> is optional. The number of rows,
  \<^verbatim>\<open>len(results)\<close>, is the length of the identifier column.
\<close>

record results =
  member_ous_uid :: "string list"
  obs_title :: "string list option"
  band_list :: "string list option"
  instrument_name :: "string list option"
  frequency :: "string list option"
  lastModified :: "string list"

record info_table =
  access_url :: "string list"
  access_format :: "string list option"
  access_estsize :: "int list option"

text \<open>\<open>xs[i]\<close> for an integer \<open>i\<close>: negative indices count from the end, out of range raises.\<close>

definition py_index :: "'x list \<Rightarrow> int \<Rightarrow> error + 'x" where
  "py_index xs i =
     (if 0 \<le> i \<and> i < int (length xs) then Inr (xs ! nat i)
      else if i < 0 \<and> - int (length xs) \<le> i then Inr (xs ! nat (int (length xs) + i))
      else Inl IndexError)"

text \<open>\<^verbatim>\<open>table[name][i] if name in table.colnames else default\<close>, for a loop index \<open>i\<close>.\<close>

definition cell_or :: "'x list option \<Rightarrow> nat \<Rightarrow> 'y \<Rightarrow> ('x \<Rightarrow> 'y) \<Rightarrow> error + 'y" where
  "cell_or col i dflt shown =
     (case col of
        None \<Rightarrow> Inr dflt
      | Some xs \<Rightarrow> (if i < length xs then Inr (shown (xs ! i)) else Inl IndexError))"

section \<open>The outside world\<close>

text \<open>
  What the scripts call and do not define is a parameter of the model: the built-in
  parsers \<^verbatim>\<open>float\<close> and \<^verbatim>\<open>int\<close> (\<open>None\<close> is \<^verbatim>\<open>ValueError\<close>), the name resolver, the archive
  client, \<^verbatim>\<open>tarfile\<close>, the directory listing, the image reader, the two \<^verbatim>\<open>numpy\<close> functions
  and the two plotting calls that validate what they are given. \<open>'c\<close> is a sky coordinate,
  \<open>'fs\<close> a state of the file system, \<open>'a\<close> what \<^verbatim>\<open>hdul[0].data\<close> holds. \<^verbatim>\<open>np.percentile\<close> raises
  on data it cannot order (\<open>None\<close>); \<^verbatim>\<open>plt.imshow\<close> and \<^verbatim>\<open>plt.colorbar\<close> raise on an array or
  on bounds they refuse (\<open>False\<close>).
\<close>

record ('c, 'fs, 'a) env =
  py_float :: "string \<Rightarrow> pyfloat option"
  py_int :: "string \<Rightarrow> int option"
  from_name :: "string \<Rightarrow> 'c option"
  query_region :: "'c \<Rightarrow> pyfloat \<Rightarrow> results"
  get_data_info :: "string \<Rightarrow> info_table"
  download_files :: "string list \<Rightarrow> string \<Rightarrow> 'fs \<Rightarrow> string list \<times> 'fs"
  tar_open :: "string \<Rightarrow> 'fs \<Rightarrow> bool"
  extractall :: "string \<Rightarrow> string \<Rightarrow> 'fs \<Rightarrow> bool \<times> 'fs"
  listdir :: "string \<Rightarrow> 'fs \<Rightarrow> string list"
  fits_open :: "string option \<Rightarrow> 'fs \<Rightarrow> 'a option"
  squeeze :: "'a \<Rightarrow> 'a"
  percentile :: "'a \<Rightarrow> nat \<Rightarrow> pyfloat option"
  imshow :: "'a \<Rightarrow> pyfloat \<Rightarrow> pyfloat \<Rightarrow> bool"
  colorbar :: "'a \<Rightarrow> pyfloat \<Rightarrow> pyfloat \<Rightarrow> bool"

text \<open>
  What a run does to the world, in order: the prompts and the printed lines, the calls of
  the services, and the calls that open and close file handles.
\<close>

datatype 'a event =
    Input string                \<comment> \<open>\<^verbatim>\<open>input(prompt)\<close>\<close>
  | Input_index string int      \<comment> \<open>\<^verbatim>\<open>input(f"\nEnter the index of the {what} (0-{n}): ")\<close>\<close>
  | Print string
  | Print_coordinates string    \<comment> \<open>the line with the coordinates of the target\<close>
  | Print_total nat             \<comment> \<open>\<^verbatim>\<open>Total datasets found: {len(results)}\<close>\<close>
  | Print_dataset nat string string string string string string
      \<comment> \<open>index, UID, title, bands, instrument, frequency, last modified\<close>
  | Print_dataset_brief nat string string string
      \<comment> \<open>index, UID, title, last modified\<close>
  | Print_file nat string string "int option"
      \<comment> \<open>\<^verbatim>\<open>{i}: File={fname}, Format={fmt}, Size={size} bytes\<close>; no size is \<^verbatim>\<open>N/A\<close>\<close>
  | Print_url nat string       \<comment> \<open>\<^verbatim>\<open>{i}: {url}\<close>\<close>
  | Print_fits_file "string option"  \<comment> \<open>\<^verbatim>\<open>Downloaded FITS file: {fits_file}\<close>\<close>
  | Resolve_name string
  | Query_region pyfloat
  | Get_data_info string
  | Download "string list" string    \<comment> \<open>\<^verbatim>\<open>alma.download_files(urls, savedir=dir, cache=True)\<close>\<close>
  | Tar_open string
  | Tar_extractall string
  | Tar_close
  | Listdir string
  | Fits_open "string option"
  | Fits_close                  \<comment> \<open>\<^verbatim>\<open>hdul.close()\<close>, or leaving a \<^verbatim>\<open>with\<close> block of \<^verbatim>\<open>hdul\<close>\<close>
  | Figure
  | Imshow 'a pyfloat pyfloat   \<comment> \<open>\<^verbatim>\<open>imshow(data, norm=LogNorm(vmin=.., vmax=..))\<close>\<close>
  | Colorbar
  | Title string
  | Xlabel
  | Ylabel
  | Show

record ('fs, 'a) state =
  stdin :: "string list"     \<comment> \<open>the lines of the standard input not read yet\<close>
  fs :: 'fs
  trace :: "'a event list"

text \<open>A step of the program: it ends with a value or an exception, in a new state.\<close>

type_synonym ('fs, 'a, 'r) prog = "('fs, 'a) state \<Rightarrow> (error + 'r) \<times> ('fs, 'a) state"

definition ret :: "'r \<Rightarrow> ('fs, 'a, 'r) prog" where
  "ret x = (\<lambda>s. (Inr x, s))"

definition raise :: "error \<Rightarrow> ('fs, 'a, 'r) prog" where
  "raise e = (\<lambda>s. (Inl e, s))"

definition emit :: "'a event \<Rightarrow> ('fs, 'a, unit) prog" where
  "emit e = (\<lambda>s. (Inr (), s\<lparr>trace := trace s @ [e]\<rparr>))"

definition lift :: "error + 'r \<Rightarrow> ('fs, 'a, 'r) prog" where
  "lift r = (\<lambda>s. (r, s))"

definition bind :: "('fs, 'a, 'r) prog \<Rightarrow> ('r \<Rightarrow> ('fs, 'a, 'q) prog) \<Rightarrow> ('fs, 'a, 'q) prog" where
  "bind m f = (\<lambda>s. case m s of (Inl e, s') \<Rightarrow> (Inl e, s') | (Inr x, s') \<Rightarrow> f x s')"

definition seq :: "('fs, 'a, unit) prog \<Rightarrow> ('fs, 'a, 'q) prog \<Rightarrow> ('fs, 'a, 'q) prog" where
  "seq m k = bind m (\<lambda>_. k)"


section \<open>The input-validation loops\<close>

text \<open>
  \<^verbatim>\<open>input(prompt)\<close> writes the prompt and reads a line; at the end of the input it raises
  \<^verbatim>\<open>EOFError\<close>, which no \<^verbatim>\<open>except ValueError\<close> catches.
\<close>

definition input_line :: "string \<Rightarrow> ('fs, 'a, string) prog" where
  "input_line prompt =
     (\<lambda>s. case stdin s of
            [] \<Rightarrow> (Inl EOFError, s\<lparr>trace := trace s @ [Input prompt]\<rparr>)
          | line # rest \<Rightarrow> (Inr line, s\<lparr>stdin := rest, trace := trace s @ [Input prompt]\<rparr>))"

definition radius_prompt :: string where
  "radius_prompt = ''Enter search radius in degrees (e.g., 0.1): ''"

text \<open>
  The \<^verbatim>\<open>while True\<close> loop of the radius (\<^verbatim>\<open>alma.py\<close>, lines 16 to 25), on the lines still
  to read and the events so far. It returns the outcome, the lines left and the events.
\<close>

fun radius_loop ::
  "(string \<Rightarrow> pyfloat option) \<Rightarrow> string list \<Rightarrow> 'a event list
     \<Rightarrow> (error + pyfloat) \<times> string list \<times> 'a event list" where
  "radius_loop pf [] out = (Inl EOFError, [], out @ [Input radius_prompt])"
| "radius_loop pf (line # rest) out =
     (let radius_input = strip line; out = out @ [Input radius_prompt] in
      case pf radius_input of
        None \<Rightarrow> radius_loop pf rest (out @ [Print ''Invalid input. Enter a number.''])
      | Some radius \<Rightarrow>
          if float_less (Finite 0) radius then (Inr radius, rest, out)
          else radius_loop pf rest (out @ [Print ''Radius must be positive.'']))"

text \<open>
  The loop of the dataset index and of the file index (\<^verbatim>\<open>alma.py\<close>, lines 58 to 67 and
  94 to 103; \<^verbatim>\<open>alma_w-hydrae.py\<close>, lines 38 to 47 and 70 to 79): the same code, over the
  number of datasets or of files.
\<close>

fun index_loop ::
  "(string \<Rightarrow> int option) \<Rightarrow> string \<Rightarrow> nat \<Rightarrow> string list \<Rightarrow> 'a event list
     \<Rightarrow> (error + int) \<times> string list \<times> 'a event list" where
  "index_loop parse what count [] out = (Inl EOFError, [], out @ [Input_index what (int count - 1)])"
| "index_loop parse what count (line # rest) out =
     (let out = out @ [Input_index what (int count - 1)] in
      case parse line of
        None \<Rightarrow> index_loop parse what count rest (out @ [Print ''Invalid input, enter a number.''])
      | Some ds_index \<Rightarrow>
          if 0 \<le> ds_index \<and> ds_index < int count then (Inr ds_index, rest, out)
          else index_loop parse what count rest (out @ [Print ''Index out of range, try again.'']))"

definition run_loop ::
  "(string list \<Rightarrow> 'a event list \<Rightarrow> (error + 'r) \<times> string list \<times> 'a event list)
     \<Rightarrow> ('fs, 'a, 'r) prog" where
  "run_loop loop =
     (\<lambda>s. case loop (stdin s) (trace s) of (r, rest, out) \<Rightarrow> (r, s\<lparr>stdin := rest, trace := out\<rparr>))"

section \<open>Listing the datasets and the files\<close>

text \<open>The \<^verbatim>\<open>for i, uid in enumerate(results["member_ous_uid"])\<close> loop of \<^verbatim>\<open>alma.py\<close>.\<close>

fun list_datasets ::
  "results \<Rightarrow> nat \<Rightarrow> string list \<Rightarrow> 'a event list \<Rightarrow> (error + unit) \<times> 'a event list" where
  "list_datasets r i [] out = (Inr (), out)"
| "list_datasets r i (uid # uids) out =
     (case cell_or (obs_title r) i ''No title'' id of Inl e \<Rightarrow> (Inl e, out) | Inr title \<Rightarrow>
      case cell_or (band_list r) i ''N/A'' id of Inl e \<Rightarrow> (Inl e, out) | Inr bands \<Rightarrow>
      case cell_or (instrument_name r) i ''N/A'' id of Inl e \<Rightarrow> (Inl e, out) | Inr instr \<Rightarrow>
      case cell_or (frequency r) i ''N/A'' id of Inl e \<Rightarrow> (Inl e, out) | Inr freq \<Rightarrow>
      case cell_or (Some (lastModified r)) i [] id of Inl e \<Rightarrow> (Inl e, out) | Inr date \<Rightarrow>
        list_datasets r (Suc i) uids (out @ [Print_dataset i uid title bands instr freq date]))"

text \<open>The same loop in \<^verbatim>\<open>alma_w-hydrae.py\<close> shows the title and the date only.\<close>

fun list_datasets_w ::
  "results \<Rightarrow> nat \<Rightarrow> string list \<Rightarrow> 'a event list \<Rightarrow> (error + unit) \<times> 'a event list" where
  "list_datasets_w r i [] out = (Inr (), out)"
| "list_datasets_w r i (uid # uids) out =
     (case cell_or (obs_title r) i ''No title'' id of Inl e \<Rightarrow> (Inl e, out) | Inr title \<Rightarrow>
      case cell_or (Some (lastModified r)) i [] id of Inl e \<Rightarrow> (Inl e, out) | Inr date \<Rightarrow>
        list_datasets_w r (Suc i) uids (out @ [Print_dataset_brief i uid title date]))"

text \<open>
  The filtering step, the same three statements in both scripts (\<^verbatim>\<open>alma.py\<close>, lines 76
  to 81; \<^verbatim>\<open>alma_w-hydrae.py\<close>, lines 56 to 61), on the column \<^verbatim>\<open>info_table["access_url"]\<close>.
\<close>

definition fits_urls :: "string list \<Rightarrow> error + string list" where
  "fits_urls urls =
     (let found = filter is_fits_url urls;
          found = (if length found = 0 then filter is_targz_url urls else found)
      in if length found = 0
         then Inl (RuntimeError ''No FITS or tarball files found in this dataset.'')
         else Inr found)"

text \<open>
  The \<^verbatim>\<open>for i, url in enumerate(fits_urls)\<close> loop of \<^verbatim>\<open>alma.py\<close> (lines 84 to 89): the index
  \<open>i\<close> of the filtered list is also the row read in the two other columns of the table.
\<close>

fun list_files ::
  "info_table \<Rightarrow> nat \<Rightarrow> string list \<Rightarrow> 'a event list \<Rightarrow> (error + unit) \<times> 'a event list" where
  "list_files t i [] out = (Inr (), out)"
| "list_files t i (url # urls) out =
     (let fname = basename url in
      case cell_or (access_format t) i ''N/A'' id of Inl e \<Rightarrow> (Inl e, out) | Inr fmt \<Rightarrow>
      case cell_or (access_estsize t) i None Some of Inl e \<Rightarrow> (Inl e, out) | Inr est_size \<Rightarrow>
        list_files t (Suc i) urls (out @ [Print_file i fname fmt est_size]))"

text \<open>In \<^verbatim>\<open>alma_w-hydrae.py\<close> (lines 64 and 65) the loop prints the index and the URL.\<close>

fun list_urls :: "nat \<Rightarrow> string list \<Rightarrow> 'a event list \<Rightarrow> 'a event list" where
  "list_urls i [] out = out"
| "list_urls i (url # urls) out = list_urls (Suc i) urls (out @ [Print_url i url])"

definition show_files :: "info_table \<Rightarrow> string list \<Rightarrow> ('fs, 'a, unit) prog" where
  "show_files t urls =
     seq (emit (Print (CHR 0x0A # ''Available files in dataset:'')))
         (\<lambda>s. case list_files t 0 urls (trace s) of (r, out) \<Rightarrow> (r, s\<lparr>trace := out\<rparr>))"

definition show_files_w :: "info_table \<Rightarrow> string list \<Rightarrow> ('fs, 'a, unit) prog" where
  "show_files_w t urls =
     seq (emit (Print (CHR 0x0A # ''Available FITS/tarball files:'')))
         (\<lambda>s. (Inr (), s\<lparr>trace := list_urls 0 urls (trace s)\<rparr>))"


section \<open>Download, extraction and display\<close>

definition download_dir :: string where
  "download_dir = ''.''"

definition download :: "('c, 'fs, 'a) env \<Rightarrow> string list \<Rightarrow> ('fs, 'a, string list) prog" where
  "download env urls =
     (\<lambda>s. case download_files env urls download_dir (fs s) of
            (paths, fs') \<Rightarrow>
              (Inr paths, s\<lparr>fs := fs', trace := trace s @ [Download urls download_dir]\<rparr>))"

text \<open>
  \<^verbatim>\<open>with tarfile.open(downloaded_file, "r:*") as tar: tar.extractall(path=download_dir)\<close>.
  When the archive cannot be opened there is no handle; once it is open, the \<^verbatim>\<open>with\<close> block
  closes it, whether \<^verbatim>\<open>extractall\<close> returns or raises.
\<close>

definition extract_archive :: "('c, 'fs, 'a) env \<Rightarrow> string \<Rightarrow> ('fs, 'a, unit) prog" where
  "extract_archive env downloaded_file =
     (\<lambda>s. if \<not> tar_open env downloaded_file (fs s)
          then (Inl (TarError downloaded_file), s\<lparr>trace := trace s @ [Tar_open downloaded_file]\<rparr>)
          else case extractall env downloaded_file download_dir (fs s) of
                 (ok, fs') \<Rightarrow>
                   (if ok then Inr () else Inl (TarError downloaded_file),
                    s\<lparr>fs := fs',
                      trace := trace s @
                        [Tar_open downloaded_file, Tar_extractall download_dir, Tar_close]\<rparr>))"

text \<open>\<^verbatim>\<open>for name in os.listdir(download_dir)\<close>: the first name that ends in \<^verbatim>\<open>.fits\<close>.\<close>

fun first_fits :: "string \<Rightarrow> string list \<Rightarrow> string option" where
  "first_fits dir [] = None"
| "first_fits dir (name # names) =
     (if endswith (lower name) ''.fits'' then Some (path_join dir name)
      else first_fits dir names)"

text \<open>
  The extraction step, the same in both scripts (\<^verbatim>\<open>alma.py\<close>, lines 117 to 127;
  \<^verbatim>\<open>alma_w-hydrae.py\<close>, lines 93 to 103). The result is the value of \<^verbatim>\<open>fits_file\<close>;
  \<open>None\<close> is Python's \<^verbatim>\<open>None\<close>, the value it starts with.
\<close>

definition fits_file :: "('c, 'fs, 'a) env \<Rightarrow> string \<Rightarrow> ('fs, 'a, string option) prog" where
  "fits_file env downloaded_file =
     (if endswith downloaded_file ''.tar.gz'' \<or> endswith downloaded_file ''.tar'' then
        seq (extract_archive env downloaded_file)
          (seq (emit (Listdir download_dir))
            (\<lambda>s. (Inr (first_fits download_dir (listdir env download_dir (fs s))), s)))
      else ret (Some downloaded_file))"

text \<open>
  The contrast bounds (\<^verbatim>\<open>alma.py\<close>, lines 142 to 144; \<^verbatim>\<open>alma_w-hydrae.py\<close>, lines 121 to
  123): the two calls of \<^verbatim>\<open>np.percentile\<close>, then the pair \<^verbatim>\<open>(max(vmin, 1e-10), vmax)\<close> given
  to \<^verbatim>\<open>LogNorm\<close>.
\<close>

definition display_bounds :: "('c, 'fs, 'a) env \<Rightarrow> 'a \<Rightarrow> error + pyfloat \<times> pyfloat" where
  "display_bounds env data_2d =
     (case percentile env data_2d 1 of
        None \<Rightarrow> Inl (LibraryError ''np.percentile'')
      | Some vmin \<Rightarrow>
          (case percentile env data_2d 99 of
             None \<Rightarrow> Inl (LibraryError ''np.percentile'')
           | Some vmax \<Rightarrow> Inr (py_max vmin lit_1e_10, vmax)))"

text \<open>A library call that returns, or raises its own exception.\<close>

definition library_call :: "string \<Rightarrow> bool \<Rightarrow> ('fs, 'a, unit) prog" where
  "library_call name ok = (if ok then ret () else raise (LibraryError name))"

text \<open>
  Opening and plotting the image. \<^verbatim>\<open>hdul = fits.open(fits_file)\<close> is a plain assignment:
  the scripts neither call \<^verbatim>\<open>hdul.close()\<close> nor use \<^verbatim>\<open>with\<close>. After \<^verbatim>\<open>plt.figure\<close> come the
  percentiles, \<^verbatim>\<open>plt.imshow\<close> with the norm, \<^verbatim>\<open>plt.colorbar\<close>, the title, the labels and
  \<^verbatim>\<open>plt.show\<close>; an exception of any of these calls ends the run. \<^verbatim>\<open>os.path.basename(None)\<close>
  raises \<^verbatim>\<open>TypeError\<close>.
\<close>

definition plot :: "('c, 'fs, 'a) env \<Rightarrow> string \<Rightarrow> string option \<Rightarrow> ('fs, 'a, unit) prog" where
  "plot env target_name file =
     seq (emit (Fits_open file))
       (\<lambda>s. case fits_open env file (fs s) of
              None \<Rightarrow> raise (FitsOpenError file) s
            | Some data \<Rightarrow>
                (let data_2d = squeeze env data
                 in seq (emit Figure)
                     (bind (lift (display_bounds env data_2d)) (\<lambda>(lo, hi).
                      seq (emit (Imshow data_2d lo hi))
                        (seq (library_call ''plt.imshow'' (imshow env data_2d lo hi))
                          (seq (emit Colorbar)
                            (seq (library_call ''plt.colorbar'' (colorbar env data_2d lo hi))
                              (case file of
                                 None \<Rightarrow> raise TypeError
                               | Some f \<Rightarrow>
                                   seq (emit (Title (target_name @ '' - '' @ basename f)))
                                     (seq (emit Xlabel)
                                       (seq (emit Ylabel) (emit Show)))))))))) s)"

section \<open>The two scripts\<close>

text \<open>From the chosen URL on: download, extraction, display.\<close>

definition from_download ::
  "('c, 'fs, 'a) env \<Rightarrow> string \<Rightarrow> string \<Rightarrow> ('fs, 'a, unit) prog" where
  "from_download env target_name first_file_url =
     bind (download env [first_file_url]) (\<lambda>downloaded.
     bind (lift (py_index downloaded 0)) (\<lambda>downloaded_file.
     bind (fits_file env downloaded_file) (\<lambda>file.
     seq (emit (Print_fits_file file))
       (plot env target_name file))))"

text \<open>
  From the chosen dataset on: the file listing, the filtering step, the display of the
  candidates (\<open>shown\<close>, which differs between the scripts), the choice of a file.
\<close>

definition from_listing ::
  "('c, 'fs, 'a) env \<Rightarrow> (info_table \<Rightarrow> string list \<Rightarrow> ('fs, 'a, unit) prog) \<Rightarrow> string \<Rightarrow> string
     \<Rightarrow> ('fs, 'a, unit) prog" where
  "from_listing env shown target_name selected_uid =
     seq (emit (Get_data_info selected_uid))
       (let info_table = get_data_info env selected_uid in
        bind (lift (fits_urls (access_url info_table))) (\<lambda>urls.
        seq (shown info_table urls)
          (bind (run_loop (index_loop (py_int env) ''file to download'' (length urls)))
             (\<lambda>file_index.
          bind (lift (py_index urls file_index)) (\<lambda>first_file_url.
          from_download env target_name first_file_url)))))"

text \<open>
  From the query result on: the list of datasets (\<open>listed\<close>, which differs between the
  scripts) and the choice of one.
\<close>

definition from_results ::
  "('c, 'fs, 'a) env
     \<Rightarrow> (results \<Rightarrow> nat \<Rightarrow> string list \<Rightarrow> 'a event list \<Rightarrow> (error + unit) \<times> 'a event list)
     \<Rightarrow> (info_table \<Rightarrow> string list \<Rightarrow> ('fs, 'a, unit) prog) \<Rightarrow> string \<Rightarrow> results
     \<Rightarrow> ('fs, 'a, unit) prog" where
  "from_results env listed shown target_name res =
     seq (emit (Print (CHR 0x0A # ''Available datasets (latest first):'')))
       (seq (\<lambda>s. case listed res 0 (member_ous_uid res) (trace s) of
                   (r, out) \<Rightarrow> (r, s\<lparr>trace := out\<rparr>))
         (bind (run_loop (index_loop (py_int env) ''dataset to use''
                  (length (member_ous_uid res)))) (\<lambda>ds_index.
          bind (lift (py_index (member_ous_uid res) ds_index)) (\<lambda>selected_uid.
          from_listing env shown target_name selected_uid))))"

text \<open>\<^verbatim>\<open>alma.py\<close>: the target and the radius are read from the standard input.\<close>

definition alma :: "('c, 'fs, 'a) env \<Rightarrow> ('fs, 'a, unit) prog" where
  "alma env =
     bind (input_line ''Enter the target name (e.g., W Hya, Betelgeuse, NGC 253): '')
       (\<lambda>line. let target_name = strip line in
     bind (run_loop (radius_loop (py_float env))) (\<lambda>radius.
     seq (emit (Resolve_name target_name))
       (case from_name env target_name of
          None \<Rightarrow> raise (NameResolveError target_name)
        | Some coord \<Rightarrow>
            seq (emit (Print_coordinates target_name))
              (seq (emit (Query_region radius))
                (let res = query_region env coord radius in
                 seq (emit (Print_total (length (member_ous_uid res))))
                   (if length (member_ous_uid res) = 0
                    then raise (RuntimeError_no_datasets target_name radius)
                    else from_results env list_datasets show_files target_name res))))))"

text \<open>
  \<^verbatim>\<open>alma_w-hydrae.py\<close>: the target is \<^verbatim>\<open>W Hya\<close> and the radius the literal \<^verbatim>\<open>0.1\<close>, the
  double \<open>3602879701896397 / 2^55\<close>.
\<close>

definition alma_w_hydrae :: "('c, 'fs, 'a) env \<Rightarrow> ('fs, 'a, unit) prog" where
  "alma_w_hydrae env =
     seq (emit (Resolve_name ''W Hya''))
       (case from_name env ''W Hya'' of
          None \<Rightarrow> raise (NameResolveError ''W Hya'')
        | Some coord \<Rightarrow>
            seq (emit (Query_region (Finite (3602879701896397 / 2 ^ 55))))
              (let res = query_region env coord (Finite (3602879701896397 / 2 ^ 55)) in
               seq (emit (Print_total (length (member_ous_uid res))))
                 (if length (member_ous_uid res) = 0
                  then raise (RuntimeError ''No ALMA datasets found for W Hya.'')
                  else from_results env list_datasets_w show_files_w ''W Hya'' res)))"


section \<open>Valid inputs, in the words of the specification\<close>

text \<open>
  The specification calls an input of the radius loop valid when it parses as a number
  greater than 0, and an input of an index loop valid when it parses as an integer in
  \<open>[0, count)\<close>. The two functions give the value of a valid line; the two others name
  the complaint that an invalid line is answered with.
\<close>

definition valid_radius :: "(string \<Rightarrow> pyfloat option) \<Rightarrow> string \<Rightarrow> pyfloat option" where
  "valid_radius pf line =
     (case pf (strip line) of
        None \<Rightarrow> None
      | Some radius \<Rightarrow> if float_less (Finite 0) radius then Some radius else None)"

definition valid_index :: "(string \<Rightarrow> int option) \<Rightarrow> nat \<Rightarrow> string \<Rightarrow> int option" where
  "valid_index parse count line =
     (case parse line of
        None \<Rightarrow> None
      | Some i \<Rightarrow> if 0 \<le> i \<and> i < int count then Some i else None)"

definition radius_complaint :: "(string \<Rightarrow> pyfloat option) \<Rightarrow> string \<Rightarrow> string" where
  "radius_complaint pf line =
     (if pf (strip line) = None then ''Invalid input. Enter a number.''
      else ''Radius must be positive.'')"

definition index_complaint :: "(string \<Rightarrow> int option) \<Rightarrow> string \<Rightarrow> string" where
  "index_complaint parse line =
     (if parse line = None then ''Invalid input, enter a number.''
      else ''Index out of range, try again.'')"

text \<open>
  A name ends case-insensitively in the image-file extension when its last five
  characters are a dot and the letters of \<^verbatim>\<open>fits\<close>, each in either case.
\<close>

definition ends_in_fits_any_case :: "string \<Rightarrow> bool" where
  "ends_in_fits_any_case name =
     (case rev name of
        c5 # c4 # c3 # c2 # c1 # _ \<Rightarrow>
          c1 = CHR ''.''
          \<and> (c2 = CHR ''f'' \<or> c2 = CHR ''F'')
          \<and> (c3 = CHR ''i'' \<or> c3 = CHR ''I'')
          \<and> (c4 = CHR ''t'' \<or> c4 = CHR ''T'')
          \<and> (c5 = CHR ''s'' \<or> c5 = CHR ''S'')
      | _ \<Rightarrow> False)"

text \<open>
  The specification asks that the handle of the image file be released once the pixels are
  read. A step keeps to the opposite when it adds no \<open>Fits_close\<close> to a trace without one.
\<close>

definition never_closes_image :: "('fs, 'a, 'r) prog \<Rightarrow> bool" where
  "never_closes_image m =
     (\<forall>s. Fits_close \<notin> set (trace s) \<longrightarrow> Fits_close \<notin> set (trace (snd (m s))))"

section \<open>A small world for running the scripts\<close>

text \<open>
  The theorems below hold for every world. Where one is run on an example, the world is
  this one: \<^verbatim>\<open>int\<close> and \<^verbatim>\<open>float\<close> on the few strings typed in, an archive that knows one
  target and three datasets, a file system that is the list of the names in the current
  directory, and a pixel array that stands for its 1st and 99th percentiles: both are NaN
  for \<^verbatim>\<open>masked.fits\<close>, an image with NaN pixels. Its \<^verbatim>\<open>plt.colorbar\<close> refuses bounds that
  are not in order, as a NaN never is.
\<close>

definition demo_int :: "string \<Rightarrow> int option" where
  "demo_int = map_of [(''0'', 0), (''1'', 1), (''2'', 2), (''7'', 7), (''-1'', - 1)]"

definition demo_float :: "string \<Rightarrow> pyfloat option" where
  "demo_float = map_of [(''0.1'', Finite (3602879701896397 / 2 ^ 55)), (''0'', Finite 0),
                        (''-2'', Finite (- 2)), (''nan'', NaN), (''inf'', PInf)]"

definition demo_results :: results where
  "demo_results =
     \<lparr>member_ous_uid = [''uid://A001/X1'', ''uid://A001/X2'', ''uid://A001/X3''],
      obs_title = Some [''Mass loss'', ''Dust shell'', ''Masers''],
      band_list = None,
      instrument_name = None,
      frequency = None,
      lastModified = [''2021-03-01'', ''2020-11-12'', ''2019-06-30'']\<rparr>"

definition demo_info :: "string \<Rightarrow> info_table" where
  "demo_info uid =
     (if uid = ''uid://A001/X1'' then
        \<lparr>access_url = [''https://a/X1/cube.tar.gz'', ''https://a/X1/image.fits''],
         access_format = Some [''application/x-tar'', ''image/fits''],
         access_estsize = Some [2048, 512]\<rparr>
      else if uid = ''uid://A001/X2'' then
        \<lparr>access_url = [''https://a/X2/readme.txt'', ''https://a/X2/bundle.tar.gz''],
         access_format = None,
         access_estsize = None\<rparr>
      else
        \<lparr>access_url = [''https://a/X3/readme.txt''],
         access_format = None,
         access_estsize = None\<rparr>)"

definition demo_members :: "string \<Rightarrow> string list" where
  "demo_members archive =
     (if basename archive = ''cube.tar.gz'' then [''notes.txt'', ''Cube.FITS'', ''cube_pb.fits'']
      else [''README.txt'', ''calibration''])"

definition demo_pixels :: "string \<Rightarrow> pyfloat \<times> pyfloat" where
  "demo_pixels f =
     (if basename f = ''masked.fits'' then (NaN, NaN) else (Finite (- 3), Finite 40))"

definition demo_env :: "(unit, string list, pyfloat \<times> pyfloat) env" where
  "demo_env =
     \<lparr>py_float = demo_float,
      py_int = demo_int,
      from_name = (\<lambda>name. if name = ''W Hya'' then Some () else None),
      query_region = (\<lambda>coord radius. demo_results),
      get_data_info = demo_info,
      download_files =
        (\<lambda>urls dir names. (map (\<lambda>url. path_join dir (basename url)) urls,
                            names @ map basename urls)),
      tar_open =
        (\<lambda>archive names. basename archive \<in> set names
                            \<and> basename archive \<noteq> ''corrupt.tar.gz''),
      extractall = (\<lambda>archive dir names. (True, names @ demo_members archive)),
      listdir = (\<lambda>dir names. names),
      fits_open =
        (\<lambda>file names. case file of
                         None \<Rightarrow> None
                       | Some f \<Rightarrow> (if basename f \<in> set names \<and> is_fits_url f
                                   then Some (demo_pixels f) else None)),
      squeeze = (\<lambda>data. data),
      percentile = (\<lambda>data q. Some (if q = 1 then fst data else snd data)),
      imshow = (\<lambda>data lo hi. True),
      colorbar = (\<lambda>data lo hi. float_le lo hi \<and> hi \<noteq> PInf)\<rparr>"

definition demo_state :: "string list \<Rightarrow> (string list, pyfloat \<times> pyfloat) state" where
  "demo_state lines = \<lparr>stdin = lines, fs = [], trace = []\<rparr>"

section \<open>Facts about the string operations\<close>

lemma endswith_suffix: "endswith s suf = suffix suf s"
  unfolding endswith_def
  by (metis suffix_drop suffix_length_le suffix_take append_take_drop_id append_eq_conv_conj)

lemma lower_char_dot: "lower_char c = CHR ''.'' \<longleftrightarrow> c = CHR ''.''"
  by (simp add: lower_char_def)

lemma lower_char_f: "lower_char c = CHR ''f'' \<longleftrightarrow> c = CHR ''f'' \<or> c = CHR ''F''"
  by (simp add: lower_char_def)

lemma lower_char_i: "lower_char c = CHR ''i'' \<longleftrightarrow> c = CHR ''i'' \<or> c = CHR ''I''"
  by (simp add: lower_char_def)

lemma lower_char_t: "lower_char c = CHR ''t'' \<longleftrightarrow> c = CHR ''t'' \<or> c = CHR ''T''"
  by (simp add: lower_char_def)

lemma lower_char_s: "lower_char c = CHR ''s'' \<longleftrightarrow> c = CHR ''s'' \<or> c = CHR ''S''"
  by (simp add: lower_char_def)

lemma lower_char_rev:
  "CHR ''.'' = lower_char c \<longleftrightarrow> c = CHR ''.''"
  "CHR ''f'' = lower_char c \<longleftrightarrow> c = CHR ''f'' \<or> c = CHR ''F''"
  "CHR ''i'' = lower_char c \<longleftrightarrow> c = CHR ''i'' \<or> c = CHR ''I''"
  "CHR ''t'' = lower_char c \<longleftrightarrow> c = CHR ''t'' \<or> c = CHR ''T''"
  "CHR ''s'' = lower_char c \<longleftrightarrow> c = CHR ''s'' \<or> c = CHR ''S''"
  using lower_char_dot [of c] lower_char_f [of c] lower_char_i [of c] lower_char_t [of c]
    lower_char_s [of c]
  by (simp_all only: eq_commute [of _ "lower_char c"])

lemma fits_not_targz: "is_fits_url u \<Longrightarrow> \<not> is_targz_url u"
  unfolding is_fits_url_def is_targz_url_def endswith_suffix suffix_def by auto

section \<open>The filtering step\<close>

text \<open>
  C1. When the listing holds at least one URL that ends, in any letter case, in \<^verbatim>\<open>.fits\<close>,
  the filtering step returns exactly the listing's \<^verbatim>\<open>.fits\<close> URLs, in their order: every
  candidate is an image URL of the listing, and no URL that ends in \<^verbatim>\<open>.tar.gz\<close> is a
  candidate.
\<close>

theorem image_urls_preferred:
  assumes "\<exists>u \<in> set urls. is_fits_url u"
  shows "\<exists>found. fits_urls urls = Inr found \<and> found = filter is_fits_url urls
           \<and> (\<forall>u \<in> set found. u \<in> set urls \<and> is_fits_url u)
           \<and> (\<forall>u \<in> set urls. is_targz_url u \<longrightarrow> u \<notin> set found)"
proof -
  from assms have ne: "filter is_fits_url urls \<noteq> []"
    by (simp add: filter_empty_conv)
  then have "fits_urls urls = Inr (filter is_fits_url urls)"
    by (simp add: fits_urls_def Let_def)
  moreover have "\<forall>u \<in> set urls. is_targz_url u \<longrightarrow> u \<notin> set (filter is_fits_url urls)"
    using fits_not_targz by auto
  ultimately show ?thesis by simp
qed

theorem image_urls_preferred_witness:
  "(\<exists>u \<in> set [''https://a/cube.tar.gz'', ''https://a/img.FITS'', ''https://a/readme.txt'',
        ''https://a/m0.fits'']. is_fits_url u)
   \<and> fits_urls [''https://a/cube.tar.gz'', ''https://a/img.FITS'', ''https://a/readme.txt'',
        ''https://a/m0.fits''] = Inr [''https://a/img.FITS'', ''https://a/m0.fits'']"
proof -
  have h: "\<exists>u \<in> set [''https://a/cube.tar.gz'', ''https://a/img.FITS'', ''https://a/readme.txt'',
        ''https://a/m0.fits'']. is_fits_url u"
    by code_simp
  have e: "filter is_fits_url [''https://a/cube.tar.gz'', ''https://a/img.FITS'',
        ''https://a/readme.txt'', ''https://a/m0.fits'']
      = [''https://a/img.FITS'', ''https://a/m0.fits'']"
    by code_simp
  from image_urls_preferred [OF h] obtain found where
    "fits_urls [''https://a/cube.tar.gz'', ''https://a/img.FITS'', ''https://a/readme.txt'',
        ''https://a/m0.fits''] = Inr found"
    and "found = filter is_fits_url [''https://a/cube.tar.gz'', ''https://a/img.FITS'',
        ''https://a/readme.txt'', ''https://a/m0.fits'']"
    by blast
  with e have "fits_urls [''https://a/cube.tar.gz'', ''https://a/img.FITS'',
        ''https://a/readme.txt'', ''https://a/m0.fits'']
      = Inr [''https://a/img.FITS'', ''https://a/m0.fits'']"
    by (simp only:)
  with h show ?thesis
    by (intro conjI)
qed

text \<open>
  C2. When no URL of the listing ends in \<^verbatim>\<open>.fits\<close> and at least one ends in \<^verbatim>\<open>.tar.gz\<close>,
  the filtering step returns the listing's \<^verbatim>\<open>.tar.gz\<close> URLs, in their order.
\<close>

theorem archive_urls_fallback:
  assumes "\<forall>u \<in> set urls. \<not> is_fits_url u" and "\<exists>u \<in> set urls. is_targz_url u"
  shows "fits_urls urls = Inr (filter is_targz_url urls)"
proof -
  from assms(1) have "filter is_fits_url urls = []"
    by (simp add: filter_empty_conv)
  moreover from assms(2) have "filter is_targz_url urls \<noteq> []"
    by (simp add: filter_empty_conv)
  ultimately show ?thesis
    by (simp add: fits_urls_def Let_def)
qed

theorem archive_urls_fallback_witness:
  "fits_urls [''https://a/cube.TAR.GZ'', ''https://a/readme.txt'', ''https://a/b.tar.gz'']
     = Inr [''https://a/cube.TAR.GZ'', ''https://a/b.tar.gz'']"
proof -
  have h1: "\<forall>u \<in> set [''https://a/cube.TAR.GZ'', ''https://a/readme.txt'', ''https://a/b.tar.gz''].
      \<not> is_fits_url u"
    by code_simp
  have h2: "\<exists>u \<in> set [''https://a/cube.TAR.GZ'', ''https://a/readme.txt'', ''https://a/b.tar.gz''].
      is_targz_url u"
    by code_simp
  have e: "filter is_targz_url [''https://a/cube.TAR.GZ'', ''https://a/readme.txt'',
        ''https://a/b.tar.gz''] = [''https://a/cube.TAR.GZ'', ''https://a/b.tar.gz'']"
    by code_simp
  from archive_urls_fallback [OF h1 h2] e show ?thesis
    by (simp only:)
qed

section \<open>No candidate file\<close>

text \<open>
  C3. When no URL of the listing of the chosen dataset ends in \<^verbatim>\<open>.fits\<close> or in \<^verbatim>\<open>.tar.gz\<close>,
  the program, from the listing on, ends with the \<^verbatim>\<open>RuntimeError\<close> whose message is
  \<^verbatim>\<open>No FITS or tarball files found in this dataset.\<close> The only event it adds is the
  request of the listing, and the file system is unchanged: nothing is displayed, no
  index is asked for and the download service is not called. This holds for both scripts
  (\<open>shown\<close> is the display of either).
\<close>

theorem no_candidate_aborts:
  assumes "\<forall>u \<in> set (access_url (get_data_info env uid)). \<not> is_fits_url u \<and> \<not> is_targz_url u"
  shows "from_listing env shown target_name uid s =
           (Inl (RuntimeError ''No FITS or tarball files found in this dataset.''),
            s\<lparr>trace := trace s @ [Get_data_info uid]\<rparr>)"
proof -
  from assms have "filter is_fits_url (access_url (get_data_info env uid)) = []"
    and "filter is_targz_url (access_url (get_data_info env uid)) = []"
    by (simp_all add: filter_empty_conv)
  then have "fits_urls (access_url (get_data_info env uid)) =
      Inl (RuntimeError ''No FITS or tarball files found in this dataset.'')"
    by (simp add: fits_urls_def)
  then show ?thesis
    by (simp add: from_listing_def seq_def bind_def emit_def lift_def Let_def)
qed

theorem no_candidate_aborts_witness:
  "from_listing demo_env show_files ''W Hya'' ''uid://A001/X3'' (demo_state [''0'']) =
     (Inl (RuntimeError ''No FITS or tarball files found in this dataset.''),
      \<lparr>stdin = [''0''], fs = [], trace = [Get_data_info ''uid://A001/X3'']\<rparr>)"
proof -
  have h: "\<forall>u \<in> set (access_url (get_data_info demo_env ''uid://A001/X3'')).
      \<not> is_fits_url u \<and> \<not> is_targz_url u"
    by code_simp
  have s: "(demo_state [''0''] :: (string list, pyfloat \<times> pyfloat) state)
             \<lparr>trace := trace (demo_state [''0'']) @ [Get_data_info ''uid://A001/X3'']\<rparr>
           = \<lparr>stdin = [''0''], fs = [], trace = [Get_data_info ''uid://A001/X3'']\<rparr>"
    unfolding demo_state_def by simp
  from no_candidate_aborts [OF h, of show_files "''W Hya''" "demo_state [''0'']"] s
  show ?thesis
    by (simp only:)
qed

section \<open>The loops on valid and invalid inputs\<close>

lemma radius_loop_first_valid:
  assumes "\<forall>l \<in> set pre. valid_radius pf l = None" and "valid_radius pf x = Some r"
  shows "radius_loop pf (pre @ x # rest) out =
           (Inr r, rest,
            out @ concat (map (\<lambda>l. [Input radius_prompt, Print (radius_complaint pf l)]) pre)
                @ [Input radius_prompt])"
  using assms
proof (induction pre arbitrary: out)
  case Nil
  then show ?case
    by (simp add: valid_radius_def Let_def split: option.splits if_splits)
next
  case (Cons l pre)
  from Cons.prems have l: "valid_radius pf l = None" and
    pre: "\<forall>l \<in> set pre. valid_radius pf l = None" by simp_all
  show ?case
  proof (cases "pf (strip l)")
    case None
    then show ?thesis
      using Cons.IH [OF pre Cons.prems(2)]
      by (simp add: Let_def radius_complaint_def)
  next
    case (Some v)
    with l have "\<not> float_less (Finite 0) v"
      by (simp add: valid_radius_def split: if_splits)
    with Some show ?thesis
      using Cons.IH [OF pre Cons.prems(2)]
      by (simp add: Let_def radius_complaint_def)
  qed
qed

lemma index_loop_first_valid:
  assumes "\<forall>l \<in> set pre. valid_index parse count l = None"
    and "valid_index parse count x = Some i"
  shows "index_loop parse what count (pre @ x # rest) out =
           (Inr i, rest,
            out @ concat (map (\<lambda>l. [Input_index what (int count - 1),
                                      Print (index_complaint parse l)]) pre)
                @ [Input_index what (int count - 1)])"
  using assms
proof (induction pre arbitrary: out)
  case Nil
  then show ?case
    by (simp add: valid_index_def Let_def split: option.splits if_splits)
next
  case (Cons l pre)
  from Cons.prems have l: "valid_index parse count l = None" and
    pre: "\<forall>l \<in> set pre. valid_index parse count l = None" by simp_all
  show ?case
  proof (cases "parse l")
    case None
    then show ?thesis
      using Cons.IH [OF pre Cons.prems(2)]
      by (simp add: Let_def index_complaint_def)
  next
    case (Some v)
    with l have "\<not> (0 \<le> v \<and> v < int count)"
      by (simp add: valid_index_def split: if_splits)
    with Some show ?thesis
      using Cons.IH [OF pre Cons.prems(2)]
      by (simp add: Let_def index_complaint_def)
  qed
qed

lemma radius_loop_eof:
  "\<forall>l \<in> set ls. valid_radius pf l = None \<Longrightarrow> fst (radius_loop pf ls out) = Inl EOFError"
  by (induction ls arbitrary: out)
     (auto simp: valid_radius_def Let_def split: option.splits if_splits)

lemma index_loop_eof:
  "\<forall>l \<in> set ls. valid_index parse count l = None
     \<Longrightarrow> fst (index_loop parse what count ls out) = Inl EOFError"
  by (induction ls arbitrary: out)
     (auto simp: valid_index_def Let_def split: option.splits if_splits)

text \<open>
  C5. Each loop goes through the lines of the input in order. When one of them is valid,
  the loop answers every earlier line with a complaint and a new prompt, returns the value
  of the first valid line and leaves the later lines unread; no exception escapes. Valid
  means: for the radius, \<^verbatim>\<open>float\<close> accepts the stripped line and the value compares greater
  than 0 (so \<^verbatim>\<open>inf\<close> is valid and \<^verbatim>\<open>nan\<close> is not); for an index, \<^verbatim>\<open>int\<close> accepts the line
  and the value is in \<open>[0, count)\<close>. When the input ends before a valid line, the next
  \<^verbatim>\<open>input()\<close> raises \<^verbatim>\<open>EOFError\<close>, which the loop does not catch.
\<close>

theorem loops_yield_first_valid:
  "((\<forall>l \<in> set pre. valid_radius pf l = None) \<and> valid_radius pf x = Some r \<longrightarrow>
      radius_loop pf (pre @ x # rest) out =
        (Inr r, rest,
         out @ concat (map (\<lambda>l. [Input radius_prompt, Print (radius_complaint pf l)]) pre)
             @ [Input radius_prompt]))
   \<and> ((\<forall>l \<in> set pre'. valid_index parse count l = None) \<and> valid_index parse count x' = Some i \<longrightarrow>
      index_loop parse what count (pre' @ x' # rest') out' =
        (Inr i, rest',
         out' @ concat (map (\<lambda>l. [Input_index what (int count - 1),
                                    Print (index_complaint parse l)]) pre')
              @ [Input_index what (int count - 1)]))
   \<and> ((\<forall>l \<in> set lines. valid_radius pf l = None) \<longrightarrow>
      fst (radius_loop pf lines out) = Inl EOFError)
   \<and> ((\<forall>l \<in> set lines'. valid_index parse count l = None) \<longrightarrow>
      fst (index_loop parse what count lines' out') = Inl EOFError)"
  using radius_loop_first_valid [of pre pf x r rest out]
    index_loop_first_valid [of pre' parse count x' i what rest' out']
    radius_loop_eof [of lines pf out] index_loop_eof [of lines' parse count what out']
  by blast

text \<open>
  The statement for every sequence of inputs, as the specification has it, fails on one with no
  valid line: after a word, an out-of-range number and a negative number the input ends,
  and \<^verbatim>\<open>EOFError\<close> escapes the loop.
\<close>

theorem loops_eof_counterexample:
  "fst (radius_loop demo_float [''abc'', ''0'', ''-2'', ''nan''] []) = Inl EOFError
   \<and> fst (index_loop demo_int ''dataset to use'' 3 [''abc'', ''7'', ''-1''] []) = Inl EOFError"
  by code_simp

theorem loops_yield_first_valid_witness:
  "radius_loop demo_float [''abc'', ''0'', '' 0.1 '', ''1''] ([] :: unit event list) =
     (Inr (Finite (3602879701896397 / 2 ^ 55)), [''1''],
      [Input radius_prompt, Print ''Invalid input. Enter a number.'',
       Input radius_prompt, Print ''Radius must be positive.'',
       Input radius_prompt])
   \<and> index_loop demo_int ''dataset to use'' 3 [''one'', ''7'', ''-1'', ''2'', ''0'']
        ([] :: unit event list) =
     (Inr 2, [''0''],
      [Input_index ''dataset to use'' 2, Print ''Invalid input, enter a number.'',
       Input_index ''dataset to use'' 2, Print ''Index out of range, try again.'',
       Input_index ''dataset to use'' 2, Print ''Index out of range, try again.'',
       Input_index ''dataset to use'' 2])
   \<and> fst (radius_loop demo_float [''abc'', ''nan''] ([] :: unit event list)) = Inl EOFError
   \<and> fst (index_loop demo_int ''dataset to use'' 3 [''7'', ''-1''] ([] :: unit event list))
       = Inl EOFError"
proof -
  have st: "strip ''abc'' = ''abc''" "strip ''0'' = ''0''" "strip '' 0.1 '' = ''0.1''"
    "strip ''nan'' = ''nan''"
    by code_simp+
  have r1: "\<forall>l \<in> set [''abc'', ''0'']. valid_radius demo_float l = None"
    by (simp add: valid_radius_def demo_float_def st)
  have r2: "valid_radius demo_float '' 0.1 '' = Some (Finite (3602879701896397 / 2 ^ 55))"
    by (simp add: valid_radius_def demo_float_def st)
  have r3: "concat (map (\<lambda>l. [Input radius_prompt, Print (radius_complaint demo_float l)])
                [''abc'', ''0''])
            = [Input radius_prompt, Print ''Invalid input. Enter a number.'',
               Input radius_prompt, Print ''Radius must be positive.'' :: unit event]"
    by (simp add: radius_complaint_def demo_float_def st)
  have i1: "\<forall>l \<in> set [''one'', ''7'', ''-1'']. valid_index demo_int 3 l = None"
    by (simp add: valid_index_def demo_int_def)
  have i2: "valid_index demo_int 3 ''2'' = Some 2"
    by (simp add: valid_index_def demo_int_def)
  have i3: "concat (map (\<lambda>l. [Input_index ''dataset to use'' 2,
                                Print (index_complaint demo_int l)]) [''one'', ''7'', ''-1''])
            = [Input_index ''dataset to use'' 2, Print ''Invalid input, enter a number.'',
               Input_index ''dataset to use'' 2, Print ''Index out of range, try again.'',
               Input_index ''dataset to use'' 2, Print ''Index out of range, try again.''
                 :: unit event]"
    by (simp add: index_complaint_def demo_int_def)
  have e1: "\<forall>l \<in> set [''abc'', ''nan'']. valid_radius demo_float l = None"
    by (simp add: valid_radius_def demo_float_def st)
  have e2: "\<forall>l \<in> set [''7'', ''-1'']. valid_index demo_int 3 l = None"
    by (simp add: valid_index_def demo_int_def)
  note t = loops_yield_first_valid [of "[''abc'', ''0'']" demo_float "'' 0.1 ''"
      "Finite (3602879701896397 / 2 ^ 55)" "[''1'']" "[]"
      "[''one'', ''7'', ''-1'']" demo_int 3 "''2''" 2 "''dataset to use''" "[''0'']" "[]"
      "[''abc'', ''nan'']" "[''7'', ''-1'']"]
  have n: "int 3 - 1 = 2" by simp
  from t have "(\<forall>l \<in> set [''abc'', ''0'']. valid_radius demo_float l = None)
      \<and> valid_radius demo_float '' 0.1 '' = Some (Finite (3602879701896397 / 2 ^ 55)) \<longrightarrow>
      radius_loop demo_float ([''abc'', ''0''] @ '' 0.1 '' # [''1'']) ([] :: unit event list) =
        (Inr (Finite (3602879701896397 / 2 ^ 55)), [''1''],
         [] @ concat (map (\<lambda>l. [Input radius_prompt, Print (radius_complaint demo_float l)])
                  [''abc'', ''0''])
            @ [Input radius_prompt])"
    by (rule conjunct1)
  with r1 r2 have c1: "radius_loop demo_float [''abc'', ''0'', '' 0.1 '', ''1'']
      ([] :: unit event list) =
     (Inr (Finite (3602879701896397 / 2 ^ 55)), [''1''],
      [Input radius_prompt, Print ''Invalid input. Enter a number.'',
       Input radius_prompt, Print ''Radius must be positive.'',
       Input radius_prompt])"
    by (simp only: r3 append.simps simp_thms)
  from t have "(\<forall>l \<in> set [''one'', ''7'', ''-1'']. valid_index demo_int 3 l = None)
      \<and> valid_index demo_int 3 ''2'' = Some 2 \<longrightarrow>
      index_loop demo_int ''dataset to use'' 3 ([''one'', ''7'', ''-1''] @ ''2'' # [''0''])
          ([] :: unit event list) =
        (Inr 2, [''0''],
         [] @ concat (map (\<lambda>l. [Input_index ''dataset to use'' (int 3 - 1),
                                   Print (index_complaint demo_int l)]) [''one'', ''7'', ''-1''])
            @ [Input_index ''dataset to use'' (int 3 - 1)])"
    by (rule conjunct1 [OF conjunct2])
  with i1 i2 have c2: "index_loop demo_int ''dataset to use'' 3
      [''one'', ''7'', ''-1'', ''2'', ''0''] ([] :: unit event list) =
     (Inr 2, [''0''],
      [Input_index ''dataset to use'' 2, Print ''Invalid input, enter a number.'',
       Input_index ''dataset to use'' 2, Print ''Index out of range, try again.'',
       Input_index ''dataset to use'' 2, Print ''Index out of range, try again.'',
       Input_index ''dataset to use'' 2])"
    by (simp only: i3 n append.simps simp_thms)
  from t have "(\<forall>l \<in> set [''abc'', ''nan'']. valid_radius demo_float l = None) \<longrightarrow>
      fst (radius_loop demo_float [''abc'', ''nan''] ([] :: unit event list)) = Inl EOFError"
    by (rule conjunct1 [OF conjunct2 [OF conjunct2]])
  with e1 have c3:
    "fst (radius_loop demo_float [''abc'', ''nan''] ([] :: unit event list)) = Inl EOFError"
    by (rule rev_mp)
  from t have "(\<forall>l \<in> set [''7'', ''-1'']. valid_index demo_int 3 l = None) \<longrightarrow>
      fst (index_loop demo_int ''dataset to use'' 3 [''7'', ''-1''] ([] :: unit event list))
        = Inl EOFError"
    by (rule conjunct2 [OF conjunct2 [OF conjunct2]])
  with e2 have c4:
    "fst (index_loop demo_int ''dataset to use'' 3 [''7'', ''-1''] ([] :: unit event list))
       = Inl EOFError"
    by (rule rev_mp)
  from c1 c2 c3 c4 show ?thesis
    by (intro conjI)
qed

section \<open>The extraction step\<close>

text \<open>
  C7. When the name of the downloaded file ends in \<^verbatim>\<open>.tar.gz\<close> or \<^verbatim>\<open>.tar\<close> and \<^verbatim>\<open>tarfile\<close>
  opens and extracts it, the step opens the archive, extracts all of it into the download
  directory, closes it and lists the directory; \<^verbatim>\<open>fits_file\<close> is the path, in the download
  directory, of the first listed name whose extension is \<^verbatim>\<open>.fits\<close> in any mix of cases.
  When \<^verbatim>\<open>tarfile\<close> cannot open the file, or cannot extract it, the step ends with the
  exception of \<^verbatim>\<open>tarfile\<close>: nothing is listed and no image file is chosen. When the name
  ends in neither extension, \<^verbatim>\<open>fits_file\<close> is the downloaded file itself and the step does
  nothing. The same holds in both scripts.
\<close>

theorem fits_file_resolution:
  "((endswith d ''.tar.gz'' \<or> endswith d ''.tar'') \<and> tar_open env d (fs s)
      \<and> extractall env d download_dir (fs s) = (True, fs') \<longrightarrow>
      fits_file env d s =
        (Inr (map_option (path_join download_dir)
                (find ends_in_fits_any_case (listdir env download_dir fs'))),
         s\<lparr>fs := fs',
           trace := trace s @ [Tar_open d, Tar_extractall download_dir, Tar_close,
                               Listdir download_dir]\<rparr>))
   \<and> ((endswith d ''.tar.gz'' \<or> endswith d ''.tar'') \<and> \<not> tar_open env d (fs s) \<longrightarrow>
        fits_file env d s = (Inl (TarError d), s\<lparr>trace := trace s @ [Tar_open d]\<rparr>))
   \<and> ((endswith d ''.tar.gz'' \<or> endswith d ''.tar'') \<and> tar_open env d (fs s)
        \<and> extractall env d download_dir (fs s) = (False, fs') \<longrightarrow>
        fits_file env d s =
          (Inl (TarError d),
           s\<lparr>fs := fs',
             trace := trace s @ [Tar_open d, Tar_extractall download_dir, Tar_close]\<rparr>))
   \<and> (\<not> endswith d' ''.tar.gz'' \<and> \<not> endswith d' ''.tar'' \<longrightarrow>
        fits_file env d' s = (Inr (Some d'), s))"
proof -
  have any_case: "endswith (lower name) ''.fits'' \<longleftrightarrow> ends_in_fits_any_case name"
    for name
  proof -
    have "endswith (lower name) ''.fits'' \<longleftrightarrow> prefix ''stif.'' (map lower_char (rev name))"
      by (simp add: endswith_suffix suffix_to_prefix lower_def rev_map)
    also have "\<dots> \<longleftrightarrow> ends_in_fits_any_case name"
      unfolding ends_in_fits_any_case_def
      by (simp add: lower_char_rev split: list.split) blast
    finally show ?thesis .
  qed
  have first: "first_fits dir names =
      map_option (path_join dir) (find ends_in_fits_any_case names)" for dir names
    by (induction names) (simp_all add: any_case)
  show ?thesis
    by (simp add: fits_file_def extract_archive_def seq_def bind_def emit_def ret_def first)
qed

text \<open>
  For every downloaded file with the name of an archive, as the specification has it,
  the statement fails on a file that \<^verbatim>\<open>tarfile\<close> cannot read: nothing is extracted and no
  image file is chosen.
\<close>

theorem unreadable_archive_counterexample:
  "fits_file demo_env ''./corrupt.tar.gz''
       \<lparr>stdin = [], fs = [''corrupt.tar.gz''], trace = []\<rparr> =
     (Inl (TarError ''./corrupt.tar.gz''),
      \<lparr>stdin = [], fs = [''corrupt.tar.gz''], trace = [Tar_open ''./corrupt.tar.gz'']\<rparr>)"
  by code_simp

theorem fits_file_resolution_witness:
  "fits_file demo_env ''./cube.tar.gz'' \<lparr>stdin = [], fs = [''cube.tar.gz''], trace = []\<rparr> =
     (Inr (Some ''./Cube.FITS''),
      \<lparr>stdin = [], fs = [''cube.tar.gz'', ''notes.txt'', ''Cube.FITS'', ''cube_pb.fits''],
        trace = [Tar_open ''./cube.tar.gz'', Tar_extractall ''.'', Tar_close, Listdir ''.'']\<rparr>)
   \<and> fits_file demo_env ''./corrupt.tar.gz''
         \<lparr>stdin = [], fs = [''corrupt.tar.gz''], trace = []\<rparr> =
     (Inl (TarError ''./corrupt.tar.gz''),
      \<lparr>stdin = [], fs = [''corrupt.tar.gz''], trace = [Tar_open ''./corrupt.tar.gz'']\<rparr>)
   \<and> fits_file demo_env ''./image.FITS'' \<lparr>stdin = [], fs = [''cube.tar.gz''], trace = []\<rparr> =
     (Inr (Some ''./image.FITS''), \<lparr>stdin = [], fs = [''cube.tar.gz''], trace = []\<rparr>)
   \<and> first_fits ''.'' [''cube.tar.gz'', ''notes.txt'', ''Cube.FITS'', ''cube_pb.fits'']
       = Some ''./Cube.FITS''"
proof -
  let ?s = "\<lparr>stdin = [], fs = [''cube.tar.gz''], trace = []\<rparr>
              :: (string list, pyfloat \<times> pyfloat) state"
  let ?c = "\<lparr>stdin = [], fs = [''corrupt.tar.gz''], trace = []\<rparr>
              :: (string list, pyfloat \<times> pyfloat) state"
  let ?after = "[''cube.tar.gz'', ''notes.txt'', ''Cube.FITS'', ''cube_pb.fits'']"
  have a1: "endswith ''./cube.tar.gz'' ''.tar.gz'' \<or> endswith ''./cube.tar.gz'' ''.tar''"
    by code_simp
  have a2: "tar_open demo_env ''./cube.tar.gz'' (fs ?s)"
    by code_simp
  have a3: "extractall demo_env ''./cube.tar.gz'' download_dir (fs ?s) = (True, ?after)"
    by code_simp
  have a4: "map_option (path_join download_dir)
              (find ends_in_fits_any_case (listdir demo_env download_dir ?after))
            = Some ''./Cube.FITS''"
    by code_simp
  have a5: "?s\<lparr>fs := ?after,
              trace := trace ?s @ [Tar_open ''./cube.tar.gz'', Tar_extractall download_dir,
                                   Tar_close, Listdir download_dir]\<rparr>
            = \<lparr>stdin = [], fs = ?after,
               trace = [Tar_open ''./cube.tar.gz'', Tar_extractall ''.'', Tar_close,
                        Listdir ''.'']\<rparr>"
    by (simp add: download_dir_def)
  have b1: "\<not> endswith ''./image.FITS'' ''.tar.gz'' \<and> \<not> endswith ''./image.FITS'' ''.tar''"
    by code_simp
  have k1: "endswith ''./corrupt.tar.gz'' ''.tar.gz'' \<or> endswith ''./corrupt.tar.gz'' ''.tar''"
    by code_simp
  have k2: "\<not> tar_open demo_env ''./corrupt.tar.gz'' (fs ?c)"
    by code_simp
  have k3: "?c\<lparr>trace := trace ?c @ [Tar_open ''./corrupt.tar.gz'']\<rparr>
            = \<lparr>stdin = [], fs = [''corrupt.tar.gz''], trace = [Tar_open ''./corrupt.tar.gz'']\<rparr>"
    by simp
  note t = fits_file_resolution [of "''./cube.tar.gz''" demo_env ?s ?after "''./image.FITS''"]
  note u = fits_file_resolution [of "''./corrupt.tar.gz''" demo_env ?c]
  from t [THEN conjunct1] a1 a2 a3 have
    "fits_file demo_env ''./cube.tar.gz'' ?s =
        (Inr (map_option (path_join download_dir)
                (find ends_in_fits_any_case (listdir demo_env download_dir ?after))),
         ?s\<lparr>fs := ?after,
           trace := trace ?s @ [Tar_open ''./cube.tar.gz'', Tar_extractall download_dir,
                                Tar_close, Listdir download_dir]\<rparr>)"
    by blast
  then have c1: "fits_file demo_env ''./cube.tar.gz'' ?s =
     (Inr (Some ''./Cube.FITS''),
      \<lparr>stdin = [], fs = ?after,
        trace = [Tar_open ''./cube.tar.gz'', Tar_extractall ''.'', Tar_close, Listdir ''.'']\<rparr>)"
    by (simp only: a4 a5)
  from u [THEN conjunct2, THEN conjunct1] k1 k2 have
    "fits_file demo_env ''./corrupt.tar.gz'' ?c =
       (Inl (TarError ''./corrupt.tar.gz''),
        ?c\<lparr>trace := trace ?c @ [Tar_open ''./corrupt.tar.gz'']\<rparr>)"
    by blast
  then have c2: "fits_file demo_env ''./corrupt.tar.gz'' ?c =
     (Inl (TarError ''./corrupt.tar.gz''),
      \<lparr>stdin = [], fs = [''corrupt.tar.gz''], trace = [Tar_open ''./corrupt.tar.gz'']\<rparr>)"
    by (simp only: k3)
  from t [THEN conjunct2, THEN conjunct2, THEN conjunct2] b1 have c3:
    "fits_file demo_env ''./image.FITS'' ?s = (Inr (Some ''./image.FITS''), ?s)"
    by blast
  have c4: "first_fits ''.'' [''cube.tar.gz'', ''notes.txt'', ''Cube.FITS'', ''cube_pb.fits'']
       = Some ''./Cube.FITS''"
    by code_simp
  from c1 c2 c3 c4 show ?thesis by (intro conjI)
qed

section \<open>Letter case in the two tests of the extension\<close>

lemma lower_append: "lower (a @ b) = lower a @ lower b"
  by (simp add: lower_def)

lemma lower_upper_targz: "lower ''.TAR.GZ'' = ''.tar.gz''"
  by code_simp

lemma upper_targz_tests:
  assumes "endswith d ''.TAR.GZ''"
  shows "is_targz_url d" and "\<not> endswith d ''.tar.gz''" and "\<not> endswith d ''.tar''"
proof -
  from assms obtain zs where d: "d = zs @ ''.TAR.GZ''"
    by (auto simp: endswith_suffix suffix_def)
  show "is_targz_url d"
    unfolding is_targz_url_def endswith_suffix d lower_append lower_upper_targz
    by (rule suffix_appendI) simp
  show "\<not> endswith d ''.tar.gz''"
    unfolding endswith_suffix d by (auto simp: suffix_def)
  show "\<not> endswith d ''.tar''"
    unfolding endswith_suffix d by (auto simp: suffix_def)
qed

text \<open>
  C10. The filtering step lowers the URL before it tests the extension; the extraction
  step tests the name of the downloaded file as it is. So a name that ends in \<^verbatim>\<open>.TAR.GZ\<close>
  passes the archive test of the filter, and the extraction step takes its second branch:
  nothing is extracted, \<^verbatim>\<open>fits_file\<close> is the archive itself, and when the download service
  returns such a name the archive is what \<^verbatim>\<open>fits.open\<close> is given.
\<close>

theorem upper_case_archive_not_extracted:
  assumes "endswith d ''.TAR.GZ''"
  shows "is_targz_url d
    \<and> fits_file env d s = (Inr (Some d), s)
    \<and> (download_files env [url] download_dir (fs s) = ([d], fs') \<longrightarrow>
         from_download env target_name url s =
           plot env target_name (Some d)
             (s\<lparr>fs := fs',
                trace := trace s @ [Download [url] download_dir, Print_fits_file (Some d)]\<rparr>))"
proof -
  note u = upper_targz_tests [OF assms]
  have f: "\<And>s'. fits_file env d s' = (Inr (Some d), s')"
    using u(2,3) by (simp add: fits_file_def ret_def)
  have "download_files env [url] download_dir (fs s) = ([d], fs') \<Longrightarrow>
         from_download env target_name url s =
           plot env target_name (Some d)
             (s\<lparr>fs := fs',
                trace := trace s @ [Download [url] download_dir, Print_fits_file (Some d)]\<rparr>)"
    by (simp add: from_download_def download_def bind_def seq_def lift_def py_index_def f
        emit_def)
  with u(1) f show ?thesis by blast
qed

theorem upper_case_archive_not_extracted_witness:
  "is_targz_url ''./CUBE.TAR.GZ''
   \<and> fits_file demo_env ''./CUBE.TAR.GZ'' (demo_state []) = (Inr (Some ''./CUBE.TAR.GZ''), demo_state [])
   \<and> from_download demo_env ''W Hya'' ''https://a/X9/CUBE.TAR.GZ'' (demo_state []) =
       (Inl (FitsOpenError (Some ''./CUBE.TAR.GZ'')),
        \<lparr>stdin = [], fs = [''CUBE.TAR.GZ''],
          trace = [Download [''https://a/X9/CUBE.TAR.GZ''] ''.'',
                   Print_fits_file (Some ''./CUBE.TAR.GZ''),
                   Fits_open (Some ''./CUBE.TAR.GZ'')]\<rparr>)"
proof -
  have h: "endswith ''./CUBE.TAR.GZ'' ''.TAR.GZ''"
    by code_simp
  have dl: "download_files demo_env [''https://a/X9/CUBE.TAR.GZ''] download_dir
              (fs (demo_state [] :: (string list, pyfloat \<times> pyfloat) state))
            = ([''./CUBE.TAR.GZ''], [''CUBE.TAR.GZ''])"
    by code_simp
  have pl: "plot demo_env ''W Hya'' (Some ''./CUBE.TAR.GZ'')
             ((demo_state [])\<lparr>fs := [''CUBE.TAR.GZ''],
                trace := trace (demo_state [] :: (string list, pyfloat \<times> pyfloat) state) @
                  [Download [''https://a/X9/CUBE.TAR.GZ''] download_dir,
                   Print_fits_file (Some ''./CUBE.TAR.GZ'')]\<rparr>)
           = (Inl (FitsOpenError (Some ''./CUBE.TAR.GZ'')),
              \<lparr>stdin = [], fs = [''CUBE.TAR.GZ''],
                trace = [Download [''https://a/X9/CUBE.TAR.GZ''] ''.'',
                   Print_fits_file (Some ''./CUBE.TAR.GZ''),
                   Fits_open (Some ''./CUBE.TAR.GZ'')]\<rparr>)"
    by code_simp
  note t = upper_case_archive_not_extracted [OF h, of demo_env "demo_state []"
      "''https://a/X9/CUBE.TAR.GZ''" "[''CUBE.TAR.GZ'']" "''W Hya''"]
  from t have c1: "is_targz_url ''./CUBE.TAR.GZ''" by (rule conjunct1)
  from t have c2: "fits_file demo_env ''./CUBE.TAR.GZ'' (demo_state [])
      = (Inr (Some ''./CUBE.TAR.GZ''), demo_state [])"
    by (rule conjunct1 [OF conjunct2])
  from t [THEN conjunct2, THEN conjunct2] dl have
    "from_download demo_env ''W Hya'' ''https://a/X9/CUBE.TAR.GZ'' (demo_state []) =
       plot demo_env ''W Hya'' (Some ''./CUBE.TAR.GZ'')
             ((demo_state [])\<lparr>fs := [''CUBE.TAR.GZ''],
                trace := trace (demo_state [] :: (string list, pyfloat \<times> pyfloat) state) @
                  [Download [''https://a/X9/CUBE.TAR.GZ''] download_dir,
                   Print_fits_file (Some ''./CUBE.TAR.GZ'')]\<rparr>)"
    by (rule mp)
  then have c3: "from_download demo_env ''W Hya'' ''https://a/X9/CUBE.TAR.GZ'' (demo_state []) =
       (Inl (FitsOpenError (Some ''./CUBE.TAR.GZ'')),
        \<lparr>stdin = [], fs = [''CUBE.TAR.GZ''],
          trace = [Download [''https://a/X9/CUBE.TAR.GZ''] ''.'',
                   Print_fits_file (Some ''./CUBE.TAR.GZ''),
                   Fits_open (Some ''./CUBE.TAR.GZ'')]\<rparr>)"
    by (simp only: pl)
  from c1 c2 c3 show ?thesis by (intro conjI)
qed

section \<open>The display of the candidate files\<close>

lemma list_files_rows:
  assumes "\<And>fm. access_format t = Some fm \<Longrightarrow> i + length urls \<le> length fm"
    and "\<And>sz. access_estsize t = Some sz \<Longrightarrow> i + length urls \<le> length sz"
  shows "list_files t i urls out =
           (Inr (),
            out @ map (\<lambda>k. Print_file (i + k) (basename (urls ! k))
                       (case access_format t of None \<Rightarrow> ''N/A'' | Some fm \<Rightarrow> fm ! (i + k))
                       (map_option (\<lambda>sz. sz ! (i + k)) (access_estsize t)))
                  [0..<length urls])"
  using assms
proof (induction urls arbitrary: i out)
  case Nil
  then show ?case by simp
next
  case (Cons url urls)
  have fm: "\<And>fm. access_format t = Some fm \<Longrightarrow> Suc i + length urls \<le> length fm"
    using Cons.prems(1) by simp
  have sz: "\<And>sz. access_estsize t = Some sz \<Longrightarrow> Suc i + length urls \<le> length sz"
    using Cons.prems(2) by simp
  have c1: "cell_or (access_format t) i ''N/A'' id =
      Inr (case access_format t of None \<Rightarrow> ''N/A'' | Some fm \<Rightarrow> fm ! i)"
    using Cons.prems(1) by (auto simp: cell_or_def split: option.splits)
  have c2: "cell_or (access_estsize t) i None Some =
      Inr (map_option (\<lambda>sz. sz ! i) (access_estsize t))"
    using Cons.prems(2) by (auto simp: cell_or_def split: option.splits)
  show ?case
    by (simp add: c1 c2 Let_def Cons.IH [OF fm sz] map_upt_Suc del: upt_Suc
        cong: option.case_cong)
qed

text \<open>
  C9. In \<^verbatim>\<open>alma.py\<close> the line shown for the \<open>i\<close>-th candidate URL holds the name of that
  URL and the format and the size of row \<open>i\<close> of the unfiltered table (or \<^verbatim>\<open>N/A\<close> without
  the column). In the listing of the first dataset of the example, the archive is row 0
  and the image row 1: the filter keeps the image only, and the line shown for it carries
  the format and the size of the archive.
\<close>

theorem file_rows_read_unfiltered_table:
  "((\<forall>fm. access_format t = Some fm \<longrightarrow> length urls \<le> length fm)
      \<and> (\<forall>sz. access_estsize t = Some sz \<longrightarrow> length urls \<le> length sz) \<longrightarrow>
      show_files t urls s =
        (Inr (),
         s\<lparr>trace := trace s @ Print (CHR 0x0A # ''Available files in dataset:'') #
              map (\<lambda>i. Print_file i (basename (urls ! i))
                     (case access_format t of None \<Rightarrow> ''N/A'' | Some fm \<Rightarrow> fm ! i)
                     (map_option (\<lambda>sz. sz ! i) (access_estsize t)))
                [0..<length urls]\<rparr>))
   \<and> fits_urls (access_url (demo_info ''uid://A001/X1'')) = Inr [''https://a/X1/image.fits'']
   \<and> access_url (demo_info ''uid://A001/X1'')
        = [''https://a/X1/cube.tar.gz'', ''https://a/X1/image.fits'']
   \<and> access_format (demo_info ''uid://A001/X1'') = Some [''application/x-tar'', ''image/fits'']
   \<and> access_estsize (demo_info ''uid://A001/X1'') = Some [2048, 512]
   \<and> list_files (demo_info ''uid://A001/X1'') 0 [''https://a/X1/image.fits'']
         ([] :: unit event list)
        = (Inr (), [Print_file 0 ''image.fits'' ''application/x-tar'' (Some 2048)])"
proof (intro conjI impI)
  assume a: "(\<forall>fm. access_format t = Some fm \<longrightarrow> length urls \<le> length fm)
      \<and> (\<forall>sz. access_estsize t = Some sz \<longrightarrow> length urls \<le> length sz)"
  then have "list_files t 0 urls (trace s @ [Print (CHR 0x0A # ''Available files in dataset:'')])
      = (Inr (), (trace s @ [Print (CHR 0x0A # ''Available files in dataset:'')]) @
              map (\<lambda>k. Print_file (0 + k) (basename (urls ! k))
                     (case access_format t of None \<Rightarrow> ''N/A'' | Some fm \<Rightarrow> fm ! (0 + k))
                     (map_option (\<lambda>sz. sz ! (0 + k)) (access_estsize t)))
                [0..<length urls])"
    by (intro list_files_rows) simp_all
  then show "show_files t urls s =
        (Inr (),
         s\<lparr>trace := trace s @ Print (CHR 0x0A # ''Available files in dataset:'') #
              map (\<lambda>i. Print_file i (basename (urls ! i))
                     (case access_format t of None \<Rightarrow> ''N/A'' | Some fm \<Rightarrow> fm ! i)
                     (map_option (\<lambda>sz. sz ! i) (access_estsize t)))
                [0..<length urls]\<rparr>)"
    by (simp add: show_files_def seq_def bind_def emit_def cong: option.case_cong)
next
  show "fits_urls (access_url (demo_info ''uid://A001/X1'')) = Inr [''https://a/X1/image.fits'']"
    by code_simp
next
  show "access_url (demo_info ''uid://A001/X1'')
      = [''https://a/X1/cube.tar.gz'', ''https://a/X1/image.fits'']"
    by code_simp
next
  show "access_format (demo_info ''uid://A001/X1'')
      = Some [''application/x-tar'', ''image/fits'']"
    by code_simp
next
  show "access_estsize (demo_info ''uid://A001/X1'') = Some [2048, 512]"
    by code_simp
next
  show "list_files (demo_info ''uid://A001/X1'') 0 [''https://a/X1/image.fits'']
            ([] :: unit event list)
          = (Inr (), [Print_file 0 ''image.fits'' ''application/x-tar'' (Some 2048)])"
    by code_simp
qed

theorem file_rows_read_unfiltered_table_witness:
  "show_files (demo_info ''uid://A001/X1'') [''https://a/X1/image.fits'']
       (demo_state [] :: (string list, pyfloat \<times> pyfloat) state) =
     (Inr (),
      \<lparr>stdin = [], fs = [],
        trace = [Print (CHR 0x0A # ''Available files in dataset:''),
                 Print_file 0 ''image.fits'' ''application/x-tar'' (Some 2048)]\<rparr>)"
proof -
  let ?t = "demo_info ''uid://A001/X1''"
  let ?s = "demo_state [] :: (string list, pyfloat \<times> pyfloat) state"
  have fm: "access_format ?t = Some [''application/x-tar'', ''image/fits'']"
    by code_simp
  have sz: "access_estsize ?t = Some [2048, 512]"
    by code_simp
  have h: "(\<forall>fm. access_format ?t = Some fm \<longrightarrow> length [''https://a/X1/image.fits''] \<le> length fm)
      \<and> (\<forall>sz. access_estsize ?t = Some sz \<longrightarrow> length [''https://a/X1/image.fits''] \<le> length sz)"
    unfolding fm sz by auto
  have b: "basename ''https://a/X1/image.fits'' = ''image.fits''"
    by code_simp
  have r: "?s\<lparr>trace := trace ?s @ Print (CHR 0x0A # ''Available files in dataset:'') #
              map (\<lambda>i. Print_file i (basename ([''https://a/X1/image.fits''] ! i))
                     (case access_format ?t of None \<Rightarrow> ''N/A'' | Some fm \<Rightarrow> fm ! i)
                     (map_option (\<lambda>sz. sz ! i) (access_estsize ?t)))
                [0..<length [''https://a/X1/image.fits'']]\<rparr>
           = \<lparr>stdin = [], fs = [],
               trace = [Print (CHR 0x0A # ''Available files in dataset:''),
                        Print_file 0 ''image.fits'' ''application/x-tar'' (Some 2048)]\<rparr>"
    unfolding fm sz by (simp add: demo_state_def b)
  from file_rows_read_unfiltered_table [of ?t "[''https://a/X1/image.fits'']" ?s,
      THEN conjunct1] h
  have "show_files ?t [''https://a/X1/image.fits''] ?s =
        (Inr (),
         ?s\<lparr>trace := trace ?s @ Print (CHR 0x0A # ''Available files in dataset:'') #
              map (\<lambda>i. Print_file i (basename ([''https://a/X1/image.fits''] ! i))
                     (case access_format ?t of None \<Rightarrow> ''N/A'' | Some fm \<Rightarrow> fm ! i)
                     (map_option (\<lambda>sz. sz ! i) (access_estsize ?t)))
                [0..<length [''https://a/X1/image.fits'']]\<rparr>)"
    by (rule mp)
  then show ?thesis
    by (simp only: r)
qed

section \<open>Opening and displaying the image\<close>

lemmas plot_defs =
  plot_def seq_def bind_def emit_def raise_def ret_def lift_def library_call_def
  display_bounds_def Let_def split_beta

lemma plot_opened:
  assumes "fits_open env (Some f) (fs s) = Some data"
    and "percentile env (squeeze env data) 1 = Some vmin"
    and "percentile env (squeeze env data) 99 = Some vmax"
    and "imshow env (squeeze env data) (py_max vmin lit_1e_10) vmax"
    and "colorbar env (squeeze env data) (py_max vmin lit_1e_10) vmax"
  shows "plot env target_name (Some f) s =
           (Inr (),
            s\<lparr>trace := trace s @
               [Fits_open (Some f), Figure,
                Imshow (squeeze env data) (py_max vmin lit_1e_10) vmax,
                Colorbar, Title (target_name @ '' - '' @ basename f), Xlabel, Ylabel, Show]\<rparr>)"
  using assms by (simp add: plot_defs)

lemma plot_failed:
  assumes "fits_open env file (fs s) = None"
  shows "plot env target_name file s =
           (Inl (FitsOpenError file), s\<lparr>trace := trace s @ [Fits_open file]\<rparr>)"
  using assms by (simp add: plot_defs)

lemma plot_none_outcome:
  "fst (plot env target_name None s) = Inl (FitsOpenError None)
   \<or> fst (plot env target_name None s) = Inl TypeError
   \<or> (\<exists>c. fst (plot env target_name None s) = Inl (LibraryError c))"
  by (simp add: plot_defs split: option.split)

lemma plot_trace_starts:
  "\<exists>rest. trace (snd (plot env target_name file s)) = trace s @ Fits_open file # rest"
  by (simp add: plot_defs split: option.split)

lemma plot_imshow:
  assumes "fits_open env file (fs s) = Some data"
    and "percentile env (squeeze env data) 1 = Some vmin"
    and "percentile env (squeeze env data) 99 = Some vmax"
  shows "Imshow (squeeze env data) (py_max vmin lit_1e_10) vmax
           \<in> set (trace (snd (plot env target_name file s)))"
  using assms by (simp add: plot_defs split: option.split)

lemma plot_colorbar_refuses:
  assumes "fits_open env file (fs s) = Some data"
    and "percentile env (squeeze env data) 1 = Some vmin"
    and "percentile env (squeeze env data) 99 = Some vmax"
    and "imshow env (squeeze env data) (py_max vmin lit_1e_10) vmax"
    and "\<not> colorbar env (squeeze env data) (py_max vmin lit_1e_10) vmax"
  shows "plot env target_name file s =
           (Inl (LibraryError ''plt.colorbar''),
            s\<lparr>trace := trace s @
               [Fits_open file, Figure,
                Imshow (squeeze env data) (py_max vmin lit_1e_10) vmax, Colorbar]\<rparr>)"
  using assms by (simp add: plot_defs)

lemma first_fits_none:
  "\<forall>name \<in> set names. \<not> endswith (lower name) ''.fits'' \<Longrightarrow> first_fits dir names = None"
  by (induction names) simp_all

text \<open>
  C4. When the downloaded file is an archive that \<^verbatim>\<open>tarfile\<close> extracts and no name listed in
  the download directory afterwards ends in \<^verbatim>\<open>.fits\<close>, the program raises nothing of its
  own: \<^verbatim>\<open>fits_file\<close> keeps the \<^verbatim>\<open>None\<close> it started with, \<^verbatim>\<open>Downloaded FITS file: None\<close> is
  printed, and \<^verbatim>\<open>fits.open(None)\<close> is called. The run ends with the exception of that call,
  or, were the call to return, with an exception of a plotting call or the \<^verbatim>\<open>TypeError\<close> of
  \<^verbatim>\<open>os.path.basename(None)\<close>; it never ends with a \<^verbatim>\<open>RuntimeError\<close>.
\<close>

theorem archive_without_image_reaches_open:
  assumes "endswith d ''.tar.gz'' \<or> endswith d ''.tar''"
    and "download_files env [url] download_dir (fs s) = ([d], fs0)"
    and "tar_open env d fs0"
    and "extractall env d download_dir fs0 = (True, fs1)"
    and "\<forall>name \<in> set (listdir env download_dir fs1). \<not> endswith (lower name) ''.fits''"
  shows "from_download env target_name url s =
           plot env target_name None
             (s\<lparr>fs := fs1,
                trace := trace s @
                  [Download [url] download_dir, Tar_open d, Tar_extractall download_dir,
                   Tar_close, Listdir download_dir, Print_fits_file None]\<rparr>)
    \<and> (fst (from_download env target_name url s) = Inl (FitsOpenError None)
         \<or> fst (from_download env target_name url s) = Inl TypeError
         \<or> (\<exists>c. fst (from_download env target_name url s) = Inl (LibraryError c)))
    \<and> (\<exists>rest. trace (snd (from_download env target_name url s)) =
          trace s @ [Download [url] download_dir, Tar_open d, Tar_extractall download_dir,
                     Tar_close, Listdir download_dir, Print_fits_file None, Fits_open None]
                  @ rest)"
proof -
  let ?s1 = "s\<lparr>fs := fs1,
                trace := trace s @
                  [Download [url] download_dir, Tar_open d, Tar_extractall download_dir,
                   Tar_close, Listdir download_dir, Print_fits_file None]\<rparr>"
  have ff: "first_fits download_dir (listdir env download_dir fs1) = None"
    using assms(5) by (rule first_fits_none)
  have run: "from_download env target_name url s = plot env target_name None ?s1"
    using assms(1-4) ff
    by (simp add: from_download_def download_def bind_def seq_def lift_def py_index_def
        fits_file_def extract_archive_def emit_def)
  have out: "fst (plot env target_name None ?s1) = Inl (FitsOpenError None)
      \<or> fst (plot env target_name None ?s1) = Inl TypeError
      \<or> (\<exists>c. fst (plot env target_name None ?s1) = Inl (LibraryError c))"
    by (rule plot_none_outcome)
  have tr: "\<exists>rest. trace (snd (plot env target_name None ?s1)) =
          trace s @ [Download [url] download_dir, Tar_open d, Tar_extractall download_dir,
                     Tar_close, Listdir download_dir, Print_fits_file None, Fits_open None]
                  @ rest"
    using plot_trace_starts [of env target_name None ?s1] by simp
  from run out tr show ?thesis by (simp only: simp_thms)
qed

theorem archive_without_image_reaches_open_witness:
  "from_download demo_env ''W Hya'' ''https://a/X2/bundle.tar.gz'' (demo_state []) =
     (Inl (FitsOpenError None),
      \<lparr>stdin = [], fs = [''bundle.tar.gz'', ''README.txt'', ''calibration''],
        trace = [Download [''https://a/X2/bundle.tar.gz''] ''.'', Tar_open ''./bundle.tar.gz'',
                 Tar_extractall ''.'', Tar_close, Listdir ''.'', Print_fits_file None,
                 Fits_open None]\<rparr>)"
proof -
  let ?s = "demo_state [] :: (string list, pyfloat \<times> pyfloat) state"
  have a1: "endswith ''./bundle.tar.gz'' ''.tar.gz'' \<or> endswith ''./bundle.tar.gz'' ''.tar''"
    by code_simp
  have a2: "download_files demo_env [''https://a/X2/bundle.tar.gz''] download_dir (fs ?s)
      = ([''./bundle.tar.gz''], [''bundle.tar.gz''])"
    by code_simp
  have a3: "tar_open demo_env ''./bundle.tar.gz'' [''bundle.tar.gz'']"
    by code_simp
  have a4: "extractall demo_env ''./bundle.tar.gz'' download_dir [''bundle.tar.gz'']
      = (True, [''bundle.tar.gz'', ''README.txt'', ''calibration''])"
    by code_simp
  have a5: "\<forall>name \<in> set (listdir demo_env download_dir
                [''bundle.tar.gz'', ''README.txt'', ''calibration'']).
              \<not> endswith (lower name) ''.fits''"
    by code_simp
  have p: "plot demo_env ''W Hya'' None
             (?s\<lparr>fs := [''bundle.tar.gz'', ''README.txt'', ''calibration''],
                trace := trace ?s @
                  [Download [''https://a/X2/bundle.tar.gz''] download_dir,
                   Tar_open ''./bundle.tar.gz'', Tar_extractall download_dir,
                   Tar_close, Listdir download_dir, Print_fits_file None]\<rparr>)
     = (Inl (FitsOpenError None),
      \<lparr>stdin = [], fs = [''bundle.tar.gz'', ''README.txt'', ''calibration''],
        trace = [Download [''https://a/X2/bundle.tar.gz''] ''.'', Tar_open ''./bundle.tar.gz'',
                 Tar_extractall ''.'', Tar_close, Listdir ''.'', Print_fits_file None,
                 Fits_open None]\<rparr>)"
    by code_simp
  from archive_without_image_reaches_open [OF a1 a2 a3 a4 a5, of "''W Hya''", THEN conjunct1]
  show ?thesis
    by (simp only: p)
qed

section \<open>File handles\<close>

lemma nci_ret: "never_closes_image (ret x)"
  by (simp add: never_closes_image_def ret_def)

lemma nci_raise: "never_closes_image (raise e)"
  by (simp add: never_closes_image_def raise_def)

lemma nci_lift: "never_closes_image (lift r)"
  by (simp add: never_closes_image_def lift_def)

lemma nci_emit: "e \<noteq> Fits_close \<Longrightarrow> never_closes_image (emit e)"
  by (simp add: never_closes_image_def emit_def)

lemma nciD:
  "never_closes_image m \<Longrightarrow> Fits_close \<notin> set (trace s)
     \<Longrightarrow> Fits_close \<notin> set (trace (snd (m s)))"
  by (simp add: never_closes_image_def)

lemma nci_bind:
  fixes m :: "('fs, 'a, 'r) prog" and f :: "'r \<Rightarrow> ('fs, 'a, 'q) prog"
  assumes "never_closes_image m" and "\<And>x. never_closes_image (f x)"
  shows "never_closes_image (bind m f)"
  unfolding never_closes_image_def
proof (intro allI impI)
  fix s :: "('fs, 'a) state"
  assume s: "Fits_close \<notin> set (trace s)"
  obtain r s' where m: "m s = (r, s')" by (cases "m s")
  from nciD [OF assms(1) s] m have s': "Fits_close \<notin> set (trace s')"
    by simp
  show "Fits_close \<notin> set (trace (snd (bind m f s)))"
  proof (cases r)
    case (Inl e)
    with m s' show ?thesis by (simp add: bind_def)
  next
    case (Inr x)
    with m have "bind m f s = f x s'" by (simp add: bind_def)
    with nciD [OF assms(2) s', of x] show ?thesis
      by simp
  qed
qed

lemma nci_seq:
  "never_closes_image m \<Longrightarrow> never_closes_image k \<Longrightarrow> never_closes_image (seq m k)"
  unfolding seq_def by (rule nci_bind)

lemma nci_input_line: "never_closes_image (input_line prompt)"
  by (simp add: never_closes_image_def input_line_def split: list.split)

lemma radius_loop_no_close:
  "Fits_close \<notin> set out \<Longrightarrow> Fits_close \<notin> set (snd (snd (radius_loop pf ls out)))"
  by (induction ls arbitrary: out) (simp_all add: Let_def split: option.split)

lemma index_loop_no_close:
  "Fits_close \<notin> set out \<Longrightarrow> Fits_close \<notin> set (snd (snd (index_loop parse what n ls out)))"
  by (induction ls arbitrary: out) (simp_all add: Let_def split: option.split)

lemma nci_run_loop:
  fixes loop :: "string list \<Rightarrow> 'a event list \<Rightarrow> (error + 'r) \<times> string list \<times> 'a event list"
  assumes "\<And>ls out. Fits_close \<notin> set out \<Longrightarrow> Fits_close \<notin> set (snd (snd (loop ls out)))"
  shows "never_closes_image (run_loop loop :: ('fs, 'a, 'r) prog)"
  unfolding never_closes_image_def run_loop_def
proof (intro allI impI)
  fix s :: "('fs, 'a) state"
  assume "Fits_close \<notin> set (trace s)"
  then have "Fits_close \<notin> set (snd (snd (loop (stdin s) (trace s))))"
    by (rule assms)
  then show "Fits_close \<notin> set (trace (snd (case loop (stdin s) (trace s) of
          (r, rest, out) \<Rightarrow> (r, s\<lparr>stdin := rest, trace := out\<rparr>))))"
    by (simp add: split_beta)
qed

lemma list_datasets_no_close:
  "Fits_close \<notin> set out \<Longrightarrow> Fits_close \<notin> set (snd (list_datasets r i uids out))"
  by (induction uids arbitrary: i out) (simp_all split: sum.split)

lemma list_datasets_w_no_close:
  "Fits_close \<notin> set out \<Longrightarrow> Fits_close \<notin> set (snd (list_datasets_w r i uids out))"
  by (induction uids arbitrary: i out) (simp_all split: sum.split)

lemma list_files_no_close:
  "Fits_close \<notin> set out \<Longrightarrow> Fits_close \<notin> set (snd (list_files t i urls out))"
  by (induction urls arbitrary: i out) (simp_all add: Let_def split: sum.split)

lemma list_urls_no_close:
  "Fits_close \<notin> set out \<Longrightarrow> Fits_close \<notin> set (list_urls i urls out)"
  by (induction urls arbitrary: i out) auto

lemma nci_listing:
  assumes "\<And>out. Fits_close \<notin> set out \<Longrightarrow> Fits_close \<notin> set (snd (listed out))"
  shows "never_closes_image (\<lambda>s. case listed (trace s) of (r, out) \<Rightarrow> (r, s\<lparr>trace := out\<rparr>))"
  using assms by (simp add: never_closes_image_def split_beta)

lemma nci_show_files: "never_closes_image (show_files t urls)"
  unfolding show_files_def
  by (intro nci_seq nci_emit nci_listing list_files_no_close) simp_all

lemma nci_show_files_w: "never_closes_image (show_files_w t urls)"
  unfolding show_files_w_def
  by (intro nci_seq nci_emit) (simp_all add: never_closes_image_def list_urls_no_close)

lemma nci_download: "never_closes_image (download env urls)"
  by (simp add: never_closes_image_def download_def split_beta)

lemma nci_extract_archive: "never_closes_image (extract_archive env d)"
  by (simp add: never_closes_image_def extract_archive_def split_beta)

lemma nci_pure: "never_closes_image (\<lambda>s. (f s, s))"
  by (simp add: never_closes_image_def)

lemma nci_fits_file: "never_closes_image (fits_file env d)"
proof (cases "endswith d ''.tar.gz'' \<or> endswith d ''.tar''")
  case True
  then have "fits_file env d =
      seq (extract_archive env d)
        (seq (emit (Listdir download_dir))
          (\<lambda>s. (Inr (first_fits download_dir (listdir env download_dir (fs s))), s)))"
    by (simp add: fits_file_def)
  then show ?thesis
    by (simp only:) (intro nci_seq nci_extract_archive nci_emit nci_pure, simp)
next
  case False
  then show ?thesis
    by (simp add: fits_file_def nci_ret)
qed

lemma nci_library_call: "never_closes_image (library_call name ok)"
  by (simp add: library_call_def nci_ret nci_raise)

lemma nci_plot_opened:
  fixes env :: "('c, 'fs, 'a) env"
  shows "never_closes_image
           (seq (emit Figure)
              (bind (lift (display_bounds env data_2d)) (\<lambda>(lo, hi).
               seq (emit (Imshow data_2d lo hi))
                 (seq (library_call ''plt.imshow'' (imshow env data_2d lo hi))
                   (seq (emit Colorbar)
                     (seq (library_call ''plt.colorbar'' (colorbar env data_2d lo hi))
                       (case file of
                          None \<Rightarrow> raise TypeError
                        | Some f \<Rightarrow>
                            seq (emit (Title (target_name @ '' - '' @ basename f)))
                              (seq (emit Xlabel)
                                (seq (emit Ylabel) (emit Show)))))))))
            :: ('fs, 'a, unit) prog)"
proof (cases "file")
  case None
  show ?thesis
    unfolding None option.case split_def
    by (intro nci_seq nci_bind nci_lift nci_emit nci_library_call nci_raise) simp_all
next
  case (Some f)
  show ?thesis
    unfolding Some option.case split_def
    by (intro nci_seq nci_bind nci_lift nci_emit nci_library_call) simp_all
qed

lemma nci_plot:
  fixes env :: "('c, 'fs, 'a) env"
  shows "never_closes_image (plot env target_name file)"
  unfolding never_closes_image_def
proof (intro allI impI)
  fix s :: "('fs, 'a) state"
  assume s: "Fits_close \<notin> set (trace s)"
  let ?s1 = "s\<lparr>trace := trace s @ [Fits_open file]\<rparr>"
  from s have s1: "Fits_close \<notin> set (trace ?s1)" by simp
  show "Fits_close \<notin> set (trace (snd (plot env target_name file s)))"
  proof (cases "fits_open env file (fs s)")
    case None
    with s show ?thesis by (simp add: plot_failed)
  next
    case (Some data)
    then have "plot env target_name file s =
        seq (emit Figure)
          (bind (lift (display_bounds env (squeeze env data))) (\<lambda>(lo, hi).
           seq (emit (Imshow (squeeze env data) lo hi))
             (seq (library_call ''plt.imshow'' (imshow env (squeeze env data) lo hi))
               (seq (emit Colorbar)
                 (seq (library_call ''plt.colorbar'' (colorbar env (squeeze env data) lo hi))
                   (case file of
                      None \<Rightarrow> raise TypeError
                    | Some f \<Rightarrow>
                        seq (emit (Title (target_name @ '' - '' @ basename f)))
                          (seq (emit Xlabel)
                            (seq (emit Ylabel) (emit Show)))))))))
          ?s1"
      by (simp add: plot_def seq_def bind_def emit_def Let_def)
    with nciD [OF nci_plot_opened s1] show ?thesis
      by (simp only:)
  qed
qed

lemma nci_from_download: "never_closes_image (from_download env target_name url)"
  unfolding from_download_def
  by (intro nci_bind nci_seq nci_download nci_lift nci_fits_file nci_plot nci_emit) simp

lemma nci_from_listing:
  assumes "\<And>t urls. never_closes_image (shown t urls)"
  shows "never_closes_image (from_listing env shown target_name uid)"
  unfolding from_listing_def Let_def
  by (intro nci_bind nci_seq nci_lift nci_emit assms nci_run_loop index_loop_no_close
      nci_from_download) simp_all

lemma nci_from_results:
  assumes "\<And>t urls. never_closes_image (shown t urls)"
    and "\<And>r i uids out. Fits_close \<notin> set out \<Longrightarrow> Fits_close \<notin> set (snd (listed r i uids out))"
  shows "never_closes_image (from_results env listed shown target_name res)"
  unfolding from_results_def
  by (intro nci_bind nci_seq nci_lift nci_emit nci_run_loop index_loop_no_close
      nci_from_listing nci_listing assms) simp_all

lemma nci_after_query:
  fixes env :: "('c, 'fs, 'a) env"
  assumes "\<And>t urls. never_closes_image (shown t urls :: ('fs, 'a, unit) prog)"
    and "\<And>r i uids out. Fits_close \<notin> set out \<Longrightarrow> Fits_close \<notin> set (snd (listed r i uids out))"
  shows "never_closes_image
           (seq (emit (Print_total (length (member_ous_uid res))))
              (if length (member_ous_uid res) = 0 then raise e
               else from_results env listed shown target_name res))"
proof (cases "length (member_ous_uid res) = 0")
  case True
  then have "(if length (member_ous_uid res) = 0 then raise e
              else from_results env listed shown target_name res) = raise e"
    by simp
  then show ?thesis
    by (simp only:) (intro nci_seq nci_emit nci_raise, simp)
next
  case False
  then have "(if length (member_ous_uid res) = 0 then raise e
              else from_results env listed shown target_name res)
             = from_results env listed shown target_name res"
    by simp
  then show ?thesis
    by (simp only:) (intro nci_seq nci_emit nci_from_results assms, simp)
qed

lemma nci_alma:
  fixes env :: "('c, 'fs, 'a) env"
  shows "never_closes_image (alma env)"
proof -
  have tail: "never_closes_image
      (seq (emit (Resolve_name target_name))
        (case from_name env target_name of
           None \<Rightarrow> raise (NameResolveError target_name)
         | Some coord \<Rightarrow>
             seq (emit (Print_coordinates target_name))
               (seq (emit (Query_region radius))
                 (seq (emit (Print_total
                         (length (member_ous_uid (query_region env coord radius)))))
                    (if length (member_ous_uid (query_region env coord radius)) = 0
                     then raise (RuntimeError_no_datasets target_name radius)
                     else from_results env list_datasets show_files target_name
                            (query_region env coord radius)))))
        :: ('fs, 'a, unit) prog)"
    for target_name radius
  proof (cases "from_name env target_name")
    case None
    show ?thesis
      unfolding None option.case
      by (intro nci_seq nci_emit nci_raise) simp
  next
    case (Some coord)
    show ?thesis
      unfolding Some option.case Let_def
      by (intro nci_seq nci_emit nci_after_query nci_show_files list_datasets_no_close)
         simp_all
  qed
  show ?thesis
    unfolding alma_def Let_def
    by (intro nci_bind nci_input_line nci_run_loop radius_loop_no_close tail)
qed

lemma nci_alma_w_hydrae:
  fixes env :: "('c, 'fs, 'a) env"
  shows "never_closes_image (alma_w_hydrae env)"
proof (cases "from_name env ''W Hya''")
  case None
  show ?thesis
    unfolding alma_w_hydrae_def None option.case
    by (intro nci_seq nci_emit nci_raise) simp
next
  case (Some coord)
  show ?thesis
    unfolding alma_w_hydrae_def Some option.case Let_def
    by (intro nci_seq nci_emit nci_after_query nci_show_files_w list_datasets_w_no_close)
       simp_all
qed

text \<open>
  C8. The handle of the archive is closed at the end of the extraction step, as the
  specification says: once \<^verbatim>\<open>tarfile.open\<close> has returned, the step ends with \<open>Tar_close\<close>,
  whether \<^verbatim>\<open>extractall\<close> returns or raises. The handle of the image is not: neither script
  ever closes it. No run of either script adds a \<open>Fits_close\<close> to the trace, and when every
  plotting call returns, the events from \<^verbatim>\<open>fits.open\<close> to the end of the program are those
  calls and nothing else.
\<close>

theorem image_handle_never_closed:
  fixes env :: "('c, 'fs, 'a) env" and s :: "('fs, 'a) state"
  shows "(Fits_close \<notin> set (trace s) \<longrightarrow>
            Fits_close \<notin> set (trace (snd (alma env s)))
            \<and> Fits_close \<notin> set (trace (snd (alma_w_hydrae env s))))
    \<and> (fits_open env (Some f) (fs s) = Some data
          \<and> percentile env (squeeze env data) 1 = Some vmin
          \<and> percentile env (squeeze env data) 99 = Some vmax
          \<and> imshow env (squeeze env data) (py_max vmin lit_1e_10) vmax
          \<and> colorbar env (squeeze env data) (py_max vmin lit_1e_10) vmax \<longrightarrow>
          plot env target_name (Some f) s =
            (Inr (),
             s\<lparr>trace := trace s @
                [Fits_open (Some f), Figure,
                 Imshow (squeeze env data) (py_max vmin lit_1e_10) vmax,
                 Colorbar, Title (target_name @ '' - '' @ basename f), Xlabel, Ylabel,
                 Show]\<rparr>))
    \<and> (tar_open env d (fs s) \<longrightarrow>
          trace (snd (extract_archive env d s)) =
            trace s @ [Tar_open d, Tar_extractall download_dir, Tar_close])"
proof (intro conjI impI)
  assume "Fits_close \<notin> set (trace s)"
  then show "Fits_close \<notin> set (trace (snd (alma env s)))"
    by (rule nciD [OF nci_alma])
next
  assume "Fits_close \<notin> set (trace s)"
  then show "Fits_close \<notin> set (trace (snd (alma_w_hydrae env s)))"
    by (rule nciD [OF nci_alma_w_hydrae])
next
  assume "fits_open env (Some f) (fs s) = Some data
          \<and> percentile env (squeeze env data) 1 = Some vmin
          \<and> percentile env (squeeze env data) 99 = Some vmax
          \<and> imshow env (squeeze env data) (py_max vmin lit_1e_10) vmax
          \<and> colorbar env (squeeze env data) (py_max vmin lit_1e_10) vmax"
  then show "plot env target_name (Some f) s =
            (Inr (),
             s\<lparr>trace := trace s @
                [Fits_open (Some f), Figure,
                 Imshow (squeeze env data) (py_max vmin lit_1e_10) vmax,
                 Colorbar, Title (target_name @ '' - '' @ basename f), Xlabel, Ylabel,
                 Show]\<rparr>)"
    by (intro plot_opened) simp_all
next
  assume "tar_open env d (fs s)"
  then show "trace (snd (extract_archive env d s)) =
            trace s @ [Tar_open d, Tar_extractall download_dir, Tar_close]"
    by (simp add: extract_archive_def split_beta)
qed

theorem image_handle_never_closed_witness:
  "Fits_close \<notin> set (trace (snd (alma demo_env
       (demo_state [''W Hya'', ''0.1'', ''0'', ''0'']))))
   \<and> from_download demo_env ''W Hya'' ''https://a/X1/cube.tar.gz'' (demo_state []) =
       (Inr (),
        \<lparr>stdin = [], fs = [''cube.tar.gz'', ''notes.txt'', ''Cube.FITS'', ''cube_pb.fits''],
          trace = [Download [''https://a/X1/cube.tar.gz''] ''.'', Tar_open ''./cube.tar.gz'',
                   Tar_extractall ''.'', Tar_close, Listdir ''.'',
                   Print_fits_file (Some ''./Cube.FITS''), Fits_open (Some ''./Cube.FITS''),
                   Figure, Imshow (Finite (- 3), Finite 40) lit_1e_10 (Finite 40), Colorbar,
                   Title ''W Hya - Cube.FITS'', Xlabel, Ylabel, Show]\<rparr>)"
proof -
  let ?s = "demo_state [''W Hya'', ''0.1'', ''0'', ''0'']
              :: (string list, pyfloat \<times> pyfloat) state"
  have h: "Fits_close \<notin> set (trace ?s)"
    by (simp add: demo_state_def)
  from image_handle_never_closed [of ?s demo_env, THEN conjunct1] h
  have c1: "Fits_close \<notin> set (trace (snd (alma demo_env ?s)))"
    by blast
  have c2: "from_download demo_env ''W Hya'' ''https://a/X1/cube.tar.gz'' (demo_state []) =
       (Inr (),
        \<lparr>stdin = [], fs = [''cube.tar.gz'', ''notes.txt'', ''Cube.FITS'', ''cube_pb.fits''],
          trace = [Download [''https://a/X1/cube.tar.gz''] ''.'', Tar_open ''./cube.tar.gz'',
                   Tar_extractall ''.'', Tar_close, Listdir ''.'',
                   Print_fits_file (Some ''./Cube.FITS''), Fits_open (Some ''./Cube.FITS''),
                   Figure, Imshow (Finite (- 3), Finite 40) lit_1e_10 (Finite 40), Colorbar,
                   Title ''W Hya - Cube.FITS'', Xlabel, Ylabel, Show]\<rparr>)"
    by code_simp
  from c1 c2 show ?thesis by (intro conjI)
qed

section \<open>The contrast bounds\<close>

lemma py_max_at_least:
  "p \<noteq> NaN \<Longrightarrow> float_le lit_1e_10 (py_max p lit_1e_10)"
  by (cases p) (simp_all add: py_max_def lit_1e_10_def)

lemma py_max_keeps:
  "float_le lit_1e_10 p \<Longrightarrow> py_max p lit_1e_10 = p"
  by (cases p) (simp_all add: py_max_def lit_1e_10_def)

text \<open>
  C6. When \<^verbatim>\<open>np.percentile\<close> returns, the upper bound given to the logarithmic scale is
  the 99th percentile of the squeezed array and the lower bound is \<^verbatim>\<open>max(vmin, 1e-10)\<close>,
  with \<^verbatim>\<open>vmin\<close> the 1st percentile. For a 1st percentile that is a number or an infinity
  this is the greater of the two, at least \<^verbatim>\<open>1e-10\<close>. For a 1st percentile that is NaN
  the clamp is missed: \<^verbatim>\<open>max\<close> keeps its first argument unless the second is greater, so
  \<^verbatim>\<open>max(nan, 1e-10)\<close> is NaN, while \<^verbatim>\<open>max(1e-10, nan)\<close> would be \<^verbatim>\<open>1e-10\<close>. The literal
  is the double next to \<open>10\<^sup>-\<^sup>1\<^sup>0\<close>, above it by less than \<open>10\<^sup>-\<^sup>2\<^sup>6\<close>. The bounds and the
  squeezed array are what \<^verbatim>\<open>imshow\<close> receives.
\<close>

theorem display_bounds_percentiles:
  fixes env :: "('c, 'fs, 'a) env" and s :: "('fs, 'a) state"
  shows "(percentile env d 1 = Some vmin \<and> percentile env d 99 = Some vmax \<longrightarrow>
            display_bounds env d = Inr (py_max vmin lit_1e_10, vmax))
    \<and> (p \<noteq> NaN \<longrightarrow> float_le lit_1e_10 (py_max p lit_1e_10))
    \<and> (float_le lit_1e_10 p \<longrightarrow> py_max p lit_1e_10 = p)
    \<and> (float_less p lit_1e_10 \<longrightarrow> py_max p lit_1e_10 = lit_1e_10)
    \<and> py_max NaN lit_1e_10 = NaN
    \<and> py_max lit_1e_10 NaN = lit_1e_10
    \<and> float_le (Finite (1 / 10 ^ 10)) lit_1e_10
    \<and> float_le lit_1e_10 (Finite (1 / 10 ^ 10 + 1 / 10 ^ 26))
    \<and> (fits_open env file (fs s) = Some data
          \<and> percentile env (squeeze env data) 1 = Some lo
          \<and> percentile env (squeeze env data) 99 = Some hi \<longrightarrow>
          Imshow (squeeze env data) (py_max lo lit_1e_10) hi
            \<in> set (trace (snd (plot env target_name file s))))"
proof (intro conjI impI)
  assume "percentile env d 1 = Some vmin \<and> percentile env d 99 = Some vmax"
  then show "display_bounds env d = Inr (py_max vmin lit_1e_10, vmax)"
    by (simp add: display_bounds_def)
next
  assume "p \<noteq> NaN"
  then show "float_le lit_1e_10 (py_max p lit_1e_10)"
    by (rule py_max_at_least)
next
  assume "float_le lit_1e_10 p"
  then show "py_max p lit_1e_10 = p"
    by (rule py_max_keeps)
next
  assume "float_less p lit_1e_10"
  then show "py_max p lit_1e_10 = lit_1e_10"
    by (simp add: py_max_def)
next
  show "py_max NaN lit_1e_10 = NaN"
    by (simp add: py_max_def)
next
  show "py_max lit_1e_10 NaN = lit_1e_10"
    by (simp add: py_max_def lit_1e_10_def)
next
  show "float_le (Finite (1 / 10 ^ 10)) lit_1e_10"
    by (simp add: lit_1e_10_def)
next
  show "float_le lit_1e_10 (Finite (1 / 10 ^ 10 + 1 / 10 ^ 26))"
    by (simp add: lit_1e_10_def)
next
  assume "fits_open env file (fs s) = Some data
          \<and> percentile env (squeeze env data) 1 = Some lo
          \<and> percentile env (squeeze env data) 99 = Some hi"
  then show "Imshow (squeeze env data) (py_max lo lit_1e_10) hi
            \<in> set (trace (snd (plot env target_name file s)))"
    by (intro plot_imshow) simp_all
qed

theorem display_bounds_percentiles_witness:
  "display_bounds demo_env (Finite (- 3), Finite 40) = Inr (lit_1e_10, Finite 40)
   \<and> float_le lit_1e_10 (py_max (Finite (- 3)) lit_1e_10)
   \<and> display_bounds demo_env (Finite 2, Finite 40) = Inr (Finite 2, Finite 40)
   \<and> display_bounds demo_env (NaN, NaN) = Inr (NaN, NaN)
   \<and> from_download demo_env ''W Hya'' ''https://a/X4/masked.fits'' (demo_state []) =
       (Inl (LibraryError ''plt.colorbar''),
        \<lparr>stdin = [], fs = [''masked.fits''],
          trace = [Download [''https://a/X4/masked.fits''] ''.'',
                   Print_fits_file (Some ''./masked.fits''), Fits_open (Some ''./masked.fits''),
                   Figure, Imshow (NaN, NaN) NaN NaN, Colorbar]\<rparr>)"
proof -
  have pc: "percentile demo_env (x, y) 1 = Some x \<and> percentile demo_env (x, y) 99 = Some y"
    for x y
    by (simp add: demo_env_def)
  note low = display_bounds_percentiles [where env = demo_env and d = "(Finite (- 3), Finite 40)"
      and vmin = "Finite (- 3)" and vmax = "Finite 40" and p = "Finite (- 3)"]
  note mid = display_bounds_percentiles [where env = demo_env and d = "(Finite 2, Finite 40)"
      and vmin = "Finite 2" and vmax = "Finite 40" and p = "Finite 2"]
  note nan = display_bounds_percentiles [where env = demo_env and d = "(NaN, NaN)"
      and vmin = NaN and vmax = NaN]
  have h1: "Finite (- 3) \<noteq> NaN" by simp
  have h2: "float_less (Finite (- 3)) lit_1e_10" by (simp add: lit_1e_10_def)
  have h3: "float_le lit_1e_10 (Finite 2)" by (simp add: lit_1e_10_def)
  have m1: "py_max (Finite (- 3)) lit_1e_10 = lit_1e_10"
    using low [THEN conjunct2, THEN conjunct2, THEN conjunct2, THEN conjunct1] h2
    by (rule mp)
  have m2: "py_max (Finite 2) lit_1e_10 = Finite 2"
    using mid [THEN conjunct2, THEN conjunct2, THEN conjunct1] h3
    by (rule mp)
  have m3: "py_max NaN lit_1e_10 = NaN"
    by (rule nan [THEN conjunct2, THEN conjunct2, THEN conjunct2, THEN conjunct2,
          THEN conjunct1])
  have "display_bounds demo_env (Finite (- 3), Finite 40)
          = Inr (py_max (Finite (- 3)) lit_1e_10, Finite 40)"
    using low [THEN conjunct1] pc [of "Finite (- 3)" "Finite 40"] by (rule mp)
  then have c1: "display_bounds demo_env (Finite (- 3), Finite 40) = Inr (lit_1e_10, Finite 40)"
    by (simp only: m1)
  have c2: "float_le lit_1e_10 (py_max (Finite (- 3)) lit_1e_10)"
    using low [THEN conjunct2, THEN conjunct1] h1 by (rule mp)
  have "display_bounds demo_env (Finite 2, Finite 40)
          = Inr (py_max (Finite 2) lit_1e_10, Finite 40)"
    using mid [THEN conjunct1] pc [of "Finite 2" "Finite 40"] by (rule mp)
  then have c3: "display_bounds demo_env (Finite 2, Finite 40) = Inr (Finite 2, Finite 40)"
    by (simp only: m2)
  have "display_bounds demo_env (NaN, NaN) = Inr (py_max NaN lit_1e_10, NaN)"
    using nan [THEN conjunct1] pc [of NaN NaN] by (rule mp)
  then have c4: "display_bounds demo_env (NaN, NaN) = Inr (NaN, NaN)"
    by (simp only: m3)
  have c5: "from_download demo_env ''W Hya'' ''https://a/X4/masked.fits'' (demo_state []) =
       (Inl (LibraryError ''plt.colorbar''),
        \<lparr>stdin = [], fs = [''masked.fits''],
          trace = [Download [''https://a/X4/masked.fits''] ''.'',
                   Print_fits_file (Some ''./masked.fits''), Fits_open (Some ''./masked.fits''),
                   Figure, Imshow (NaN, NaN) NaN NaN, Colorbar]\<rparr>)"
    by code_simp
  from c1 c2 c3 c4 c5 show ?thesis by (intro conjI)
qed

end
